theory Spec2Isabelle
  imports Main "HOL-Library.AList"
begin

section \<open>JavaScript values used by the standings tracker\<close>

text \<open>
  The program is JavaScript. The values that flow through the prediction and
  scoring code are \<^verbatim>\<open>undefined\<close>, \<^verbatim>\<open>null\<close>, numbers and strings.
  Numbers are modelled as mathematical integers plus \<^verbatim>\<open>NaN\<close>: every number the
  code produces comes out of \<^verbatim>\<open>parseInt\<close> or out of the points tables, and the
  magnitudes involved (positions, points) are far inside the range where a double
  represents an integer exactly.
\<close>

datatype jsnumber = NaN | Finite int

datatype jsval = JUndefined | JNull | JNumber jsnumber | JString string

type_synonym driverId = string

type_synonym roundKey = string

text \<open>Strict equality \<^verbatim>\<open>===\<close>: same type and same value, and \<^verbatim>\<open>NaN\<close> equals nothing.\<close>

fun strict_equals :: "jsval \<Rightarrow> jsval \<Rightarrow> bool" where
  "strict_equals (JNumber NaN) b = False"
| "strict_equals a (JNumber NaN) = False"
| "strict_equals a b = (a = b)"

text \<open>Truthiness of a value, as tested by \<^verbatim>\<open>if (v)\<close> and \<^verbatim>\<open>v && ...\<close>.\<close>

fun js_truthy :: "jsval \<Rightarrow> bool" where
  "js_truthy JUndefined = False"
| "js_truthy JNull = False"
| "js_truthy (JNumber NaN) = False"
| "js_truthy (JNumber (Finite n)) = (n \<noteq> 0)"
| "js_truthy (JString s) = (s \<noteq> [])"

text \<open>\<^verbatim>\<open>x > 0\<close> on a number: false for \<^verbatim>\<open>NaN\<close>.\<close>

fun greater_zero :: "jsnumber \<Rightarrow> bool" where
  "greater_zero NaN = False"
| "greater_zero (Finite n) = (n > 0)"

text \<open>
  \<^verbatim>\<open>v > 0\<close> on a value that is \<^verbatim>\<open>undefined\<close>, \<^verbatim>\<open>null\<close> or a number
  (\<^verbatim>\<open>undefined\<close> converts to \<^verbatim>\<open>NaN\<close>, \<^verbatim>\<open>null\<close> to 0). The program never
  compares a string this way on the paths modelled here, so that case is left out.
\<close>

fun js_greater_zero :: "jsval \<Rightarrow> bool" where
  "js_greater_zero JUndefined = False"
| "js_greater_zero JNull = False"
| "js_greater_zero (JNumber n) = greater_zero n"

text \<open>\<^verbatim>\<open>a + b\<close> on numbers.\<close>

fun js_add :: "jsnumber \<Rightarrow> jsnumber \<Rightarrow> jsnumber" where
  "js_add (Finite a) (Finite b) = Finite (a + b)"
| "js_add a b = NaN"

subsection \<open>\<^verbatim>\<open>parseInt\<close>\<close>

text \<open>
  \<^verbatim>\<open>parseInt(v)\<close> with no radix: convert \<^verbatim>\<open>v\<close> to a string, skip leading white
  space, read an optional sign, switch to radix 16 after a \<^verbatim>\<open>0x\<close> prefix, take the
  longest prefix of digits and return its value, or \<^verbatim>\<open>NaN\<close> when that prefix is
  empty. Strings are byte strings here, so only the ASCII white space characters count.
\<close>

definition isWhiteSpace :: "char \<Rightarrow> bool" where
  "isWhiteSpace c = (c \<in> set [CHR 0x09, CHR 0x0A, CHR 0x0B, CHR 0x0C, CHR 0x0D, CHR '' ''])"

definition digitValue :: "char \<Rightarrow> nat option" where
  "digitValue = map_of
     [(CHR ''0'', 0), (CHR ''1'', 1), (CHR ''2'', 2), (CHR ''3'', 3), (CHR ''4'', 4),
      (CHR ''5'', 5), (CHR ''6'', 6), (CHR ''7'', 7), (CHR ''8'', 8), (CHR ''9'', 9),
      (CHR ''a'', 10), (CHR ''b'', 11), (CHR ''c'', 12), (CHR ''d'', 13), (CHR ''e'', 14),
      (CHR ''f'', 15),
      (CHR ''A'', 10), (CHR ''B'', 11), (CHR ''C'', 12), (CHR ''D'', 13), (CHR ''E'', 14),
      (CHR ''F'', 15)]"

definition isRadixDigit :: "nat \<Rightarrow> char \<Rightarrow> bool" where
  "isRadixDigit radix c = (case digitValue c of None \<Rightarrow> False | Some d \<Rightarrow> d < radix)"

definition digitsValue :: "nat \<Rightarrow> string \<Rightarrow> nat" where
  "digitsValue radix ds =
     foldl (\<lambda>acc c. acc * radix + (case digitValue c of None \<Rightarrow> 0 | Some d \<Rightarrow> d)) 0 ds"

definition parseInt_string :: "string \<Rightarrow> jsnumber" where
  "parseInt_string inputString =
     (let S = dropWhile isWhiteSpace inputString;
          sign = (case S of c # _ \<Rightarrow> (if c = CHR ''-'' then - 1 else 1) | [] \<Rightarrow> (1::int));
          S1 = (case S of c # rest \<Rightarrow> (if c = CHR ''-'' \<or> c = CHR ''+'' then rest else S)
                | [] \<Rightarrow> S);
          hex = (case S1 of c # d # _ \<Rightarrow> c = CHR ''0'' \<and> (d = CHR ''x'' \<or> d = CHR ''X'')
                 | _ \<Rightarrow> False);
          R = (if hex then 16 else 10);
          S2 = (if hex then drop 2 S1 else S1);
          Z = takeWhile (isRadixDigit R) S2
      in if Z = [] then NaN else Finite (sign * int (digitsValue R Z)))"

text \<open>The decimal numeral of a natural number, as \<^verbatim>\<open>String(n)\<close> prints it.\<close>

definition digitChar :: "nat \<Rightarrow> char" where
  "digitChar d = ''0123456789'' ! d"

fun toDecimal :: "nat \<Rightarrow> string" where
  "toDecimal n = (if n < 10 then [digitChar n] else toDecimal (n div 10) @ [digitChar (n mod 10)])"

declare toDecimal.simps [simp del]

definition intToString :: "int \<Rightarrow> string" where
  "intToString i = (if i < 0 then CHR ''-'' # toDecimal (nat (- i)) else toDecimal (nat i))"

fun ToString :: "jsval \<Rightarrow> string" where
  "ToString JUndefined = ''undefined''"
| "ToString JNull = ''null''"
| "ToString (JNumber NaN) = ''NaN''"
| "ToString (JNumber (Finite i)) = intToString i"
| "ToString (JString s) = s"

definition parseInt :: "jsval \<Rightarrow> jsnumber" where
  "parseInt v = parseInt_string (ToString v)"

section \<open>Data received from the results provider\<close>

text \<open>
  A plain object used as a dictionary (\<^verbatim>\<open>raceResults\<close>, \<^verbatim>\<open>userPredictions\<close>, ...)
  is a map from its keys: \<^verbatim>\<open>obj[k]\<close> is truthy exactly when the key is present,
  because the values stored are arrays and objects. Round keys are the provider's round
  strings (\<^verbatim>\<open>"1"\<close>, \<^verbatim>\<open>"2"\<close>, ...); properties inherited from
  \<^verbatim>\<open>Object.prototype\<close> are not round or driver keys and are outside the model.
\<close>

text \<open>A race of the schedule: \<^verbatim>\<open>race.round\<close>, \<^verbatim>\<open>race.raceName\<close> and
  \<^verbatim>\<open>race.Sprint\<close>, which is \<^verbatim>\<open>undefined\<close> (here \<open>None\<close>) on a weekend without a sprint.\<close>

record race =
  race_round :: roundKey
  race_raceName :: string
  race_Sprint :: "string option"

text \<open>One entry of a race or sprint classification, as the provider sends it: all strings.
  \<open>r_driverId\<close> is \<^verbatim>\<open>r.Driver.driverId\<close>.\<close>

record resultEntry =
  r_driverId :: driverId
  r_positionText :: string
  r_position :: string
  r_points :: string

text \<open>One entry of a qualifying classification; \<open>q_driverId\<close> is \<^verbatim>\<open>q.Driver.driverId\<close>.\<close>

record qualifyingEntry =
  q_driverId :: driverId
  q_position :: string

text \<open>A driver of the standings, as \<^verbatim>\<open>loadData\<close> stores it: the championship position
  and the points are already numbers.\<close>

record driver =
  d_driverId :: driverId
  d_position :: int
  d_currentPoints :: int

type_synonym results = "roundKey \<rightharpoonup> resultEntry list"

type_synonym qualifying = "roundKey \<rightharpoonup> qualifyingEntry list"

text \<open>
  The predictions of one round are an object keyed by driver id. Its own properties are
  kept as an association list in insertion order, which is the order
  \<^verbatim>\<open>Object.entries\<close> walks them in (driver ids are names such as
  \<^verbatim>\<open>"hamilton"\<close>, never array indices). Assigning \<^verbatim>\<open>obj[k] = v\<close> overwrites the
  property in place or appends a new one: \<open>AList.update\<close>. Reading \<^verbatim>\<open>obj[k]\<close> gives
  \<^verbatim>\<open>undefined\<close> for a missing property.
\<close>

type_synonym predictionObject = "(driverId \<times> jsval) list"

type_synonym predictions = "roundKey \<rightharpoonup> predictionObject"

section \<open>Points calculator\<close>

definition POINTS_SYSTEM :: "(int \<times> int) list" where
  "POINTS_SYSTEM =
     [(1, 25), (2, 18), (3, 15), (4, 12), (5, 10), (6, 8), (7, 6), (8, 4), (9, 2), (10, 1)]"

definition SPRINT_POINTS_SYSTEM :: "(int \<times> int) list" where
  "SPRINT_POINTS_SYSTEM =
     [(1, 8), (2, 7), (3, 6), (4, 5), (5, 4), (6, 3), (7, 2), (8, 1)]"

text \<open>\<^verbatim>\<open>POINTS_SYSTEM[position] || 0\<close>: a missing key (and \<^verbatim>\<open>NaN\<close>) gives 0.\<close>

fun getRacePoints :: "jsnumber \<Rightarrow> int" where
  "getRacePoints NaN = 0"
| "getRacePoints (Finite p) = (case map_of POINTS_SYSTEM p of None \<Rightarrow> 0 | Some pts \<Rightarrow> pts)"

fun getSprintPoints :: "jsnumber \<Rightarrow> int" where
  "getSprintPoints NaN = 0"
| "getSprintPoints (Finite p) =
     (case map_of SPRINT_POINTS_SYSTEM p of None \<Rightarrow> 0 | Some pts \<Rightarrow> pts)"

text \<open>The object returned by \<^verbatim>\<open>getDriverRaceResult\<close> and \<^verbatim>\<open>getDriverSprintResult\<close>;
  \<^verbatim>\<open>null\<close> is \<open>None\<close>.\<close>

record driverResult =
  res_position :: jsnumber
  res_points :: jsnumber
  res_isActual :: bool

definition getDriverRaceResult :: "driverId \<Rightarrow> roundKey \<Rightarrow> results \<Rightarrow> driverResult option" where
  "getDriverRaceResult driverId rnd raceResults =
     (case raceResults rnd of
        None \<Rightarrow> None
      | Some entries \<Rightarrow>
          (case find (\<lambda>r. r_driverId r = driverId) entries of
             None \<Rightarrow> None
           | Some result \<Rightarrow>
               Some \<lparr>res_position =
                        parseInt (if r_positionText result = ''R'' then JNumber (Finite 0)
                                  else JString (r_position result)),
                     res_points = parseInt (JString (r_points result)),
                     res_isActual = True\<rparr>))"

definition getDriverSprintResult :: "driverId \<Rightarrow> roundKey \<Rightarrow> results \<Rightarrow> driverResult option" where
  "getDriverSprintResult driverId rnd sprintResults =
     (case sprintResults rnd of
        None \<Rightarrow> None
      | Some entries \<Rightarrow>
          (case find (\<lambda>r. r_driverId r = driverId) entries of
             None \<Rightarrow> None
           | Some result \<Rightarrow>
               Some \<lparr>res_position =
                        parseInt (if r_positionText result = ''R'' then JNumber (Finite 0)
                                  else JString (r_position result)),
                     res_points = parseInt (JString (r_points result)),
                     res_isActual = True\<rparr>))"

text \<open>Column identifiers, as the template strings build them.\<close>

definition raceColumn :: "roundKey \<Rightarrow> string" where
  "raceColumn rnd = ''race-'' @ rnd"

definition sprintColumn :: "roundKey \<Rightarrow> string" where
  "sprintColumn rnd = ''sprint-'' @ rnd"

text \<open>
  \<^verbatim>\<open>calculateTotalPoints\<close>: the loop over the races, with the running total as the
  accumulator. The two prediction arguments are passed by the caller and not read.
\<close>

fun calculateTotalPoints_loop ::
  "jsnumber \<Rightarrow> driverId \<Rightarrow> race list \<Rightarrow> results \<Rightarrow> results \<Rightarrow> string set \<Rightarrow>
   (driverId \<Rightarrow> roundKey \<Rightarrow> bool \<Rightarrow> jsnumber) \<Rightarrow> jsnumber" where
  "calculateTotalPoints_loop totalPoints driverId [] raceResults sprintResults collapsed
     getPredicted = totalPoints"
| "calculateTotalPoints_loop totalPoints driverId (race # races) raceResults sprintResults
     collapsed getPredicted =
     (let rnd = race_round race;
          hasSprint = (race_Sprint race \<noteq> None);
          total1 =
            (if hasSprint \<and> sprintColumn rnd \<notin> collapsed then
               (case getDriverSprintResult driverId rnd sprintResults of
                  Some sprintResult \<Rightarrow> js_add totalPoints (res_points sprintResult)
                | None \<Rightarrow>
                    (let predictedPos = getPredicted driverId rnd True
                     in if greater_zero predictedPos
                        then js_add totalPoints (Finite (getSprintPoints predictedPos))
                        else totalPoints))
             else totalPoints);
          total2 =
            (if raceColumn rnd \<notin> collapsed then
               (case getDriverRaceResult driverId rnd raceResults of
                  Some raceResult \<Rightarrow> js_add total1 (res_points raceResult)
                | None \<Rightarrow>
                    (let predictedPos = getPredicted driverId rnd False
                     in if greater_zero predictedPos
                        then js_add total1 (Finite (getRacePoints predictedPos))
                        else total1))
             else total1)
      in calculateTotalPoints_loop total2 driverId races raceResults sprintResults collapsed
           getPredicted)"

definition calculateTotalPoints ::
  "driverId \<Rightarrow> race list \<Rightarrow> results \<Rightarrow> results \<Rightarrow> predictions \<Rightarrow> predictions \<Rightarrow> string set \<Rightarrow>
   (driverId \<Rightarrow> roundKey \<Rightarrow> bool \<Rightarrow> jsnumber) \<Rightarrow> jsnumber" where
  "calculateTotalPoints driverId races raceResults sprintResults userPreds sprintPreds
     collapsed getPredicted =
     calculateTotalPoints_loop (Finite 0) driverId races raceResults sprintResults collapsed
       getPredicted"

section \<open>Prediction manager\<close>

definition getProperty :: "predictionObject \<Rightarrow> driverId \<Rightarrow> jsval" where
  "getProperty obj k = (case map_of obj k of None \<Rightarrow> JUndefined | Some v \<Rightarrow> v)"

record predictionManager =
  userPredictions :: predictions
  sprintPredictions :: predictions

definition getPredictedPosition ::
  "predictionManager \<Rightarrow> driverId \<Rightarrow> roundKey \<Rightarrow> bool \<Rightarrow> qualifying \<Rightarrow> qualifying \<Rightarrow>
   driver list \<Rightarrow> jsnumber" where
  "getPredictedPosition pm driverId rnd isSprint qualifyingResults sprintQualifyingResults
     driversData =
     (let preds = (if isSprint then sprintPredictions pm else userPredictions pm);
          stored = (case preds rnd of None \<Rightarrow> None | Some obj \<Rightarrow> map_of obj driverId)
      in case stored of
           Some pos \<Rightarrow> (if pos = JNull then Finite 0 else parseInt pos)
         | None \<Rightarrow>
             (let qualResults = (if isSprint then sprintQualifyingResults else qualifyingResults)
              in case qualResults rnd of
                   Some quals \<Rightarrow>
                     (case find (\<lambda>q. q_driverId q = driverId) quals of
                        Some qualResult \<Rightarrow> parseInt (JString (q_position qualResult))
                      | None \<Rightarrow> Finite 0)
                 | None \<Rightarrow>
                     (case find (\<lambda>d. d_driverId d = driverId) driversData of
                        None \<Rightarrow> Finite 0
                      | Some drv \<Rightarrow>
                          (if d_position drv > 20 then Finite 0
                           else Finite (d_position drv)))))"

text \<open>\<^verbatim>\<open>PredictionManager.updatePrediction\<close> and \<^verbatim>\<open>updateSprintPrediction\<close>.\<close>

definition PredictionManager_updatePrediction ::
  "predictionManager \<Rightarrow> driverId \<Rightarrow> roundKey \<Rightarrow> jsval \<Rightarrow> predictionManager" where
  "PredictionManager_updatePrediction pm driverId rnd pos =
     (let obj = (case userPredictions pm rnd of None \<Rightarrow> [] | Some obj \<Rightarrow> obj)
      in pm\<lparr>userPredictions := (userPredictions pm)(rnd \<mapsto> AList.update driverId pos obj)\<rparr>)"

definition PredictionManager_updateSprintPrediction ::
  "predictionManager \<Rightarrow> driverId \<Rightarrow> roundKey \<Rightarrow> jsval \<Rightarrow> predictionManager" where
  "PredictionManager_updateSprintPrediction pm driverId rnd pos =
     (let obj = (case sprintPredictions pm rnd of None \<Rightarrow> [] | Some obj \<Rightarrow> obj)
      in pm\<lparr>sprintPredictions := (sprintPredictions pm)(rnd \<mapsto> AList.update driverId pos obj)\<rparr>)"

section \<open>Table renderer: column visibility and column order\<close>

text \<open>\<^verbatim>\<open>this.collapsedColumns\<close> is a \<^verbatim>\<open>Set\<close> of column identifiers; only
  \<^verbatim>\<open>has\<close>, \<^verbatim>\<open>add\<close> and \<^verbatim>\<open>delete\<close> are used on it.\<close>

record tableRenderer =
  collapsedColumns :: "string set"

text \<open>The first loop of \<^verbatim>\<open>toggleAllFuture\<close>: it stops at the first race without a
  result whose race column is not collapsed.\<close>

fun anyFutureVisible_loop :: "race list \<Rightarrow> results \<Rightarrow> string set \<Rightarrow> bool" where
  "anyFutureVisible_loop [] raceResults collapsed = False"
| "anyFutureVisible_loop (race # races) raceResults collapsed =
     (if raceResults (race_round race) = None \<and> raceColumn (race_round race) \<notin> collapsed
      then True
      else anyFutureVisible_loop races raceResults collapsed)"

text \<open>The second loop: every race without a result, and every sprint without a result,
  is added to the set or deleted from it.\<close>

fun toggleFuture_loop ::
  "bool \<Rightarrow> race list \<Rightarrow> results \<Rightarrow> results \<Rightarrow> string set \<Rightarrow> string set" where
  "toggleFuture_loop anyFutureVisible [] raceResults sprintResults collapsed = collapsed"
| "toggleFuture_loop anyFutureVisible (race # races) raceResults sprintResults collapsed =
     (let rnd = race_round race;
          hasSprint = (race_Sprint race \<noteq> None);
          collapsed1 =
            (if raceResults rnd = None then
               (if anyFutureVisible then insert (raceColumn rnd) collapsed
                else collapsed - {raceColumn rnd})
             else collapsed);
          collapsed2 =
            (if hasSprint \<and> sprintResults rnd = None then
               (if anyFutureVisible then insert (sprintColumn rnd) collapsed1
                else collapsed1 - {sprintColumn rnd})
             else collapsed1)
      in toggleFuture_loop anyFutureVisible races raceResults sprintResults collapsed2)"

text \<open>\<^verbatim>\<open>toggleAllFuture\<close> returns the renderer with its new set, and the boolean.\<close>

definition toggleAllFuture ::
  "tableRenderer \<Rightarrow> race list \<Rightarrow> results \<Rightarrow> results \<Rightarrow> tableRenderer \<times> bool" where
  "toggleAllFuture tr races raceResults sprintResults =
     (let anyFutureVisible = anyFutureVisible_loop races raceResults (collapsedColumns tr);
          collapsed1 =
            toggleFuture_loop anyFutureVisible races raceResults sprintResults
              (collapsedColumns tr);
          collapsed2 =
            (if anyFutureVisible
             then insert ''predicted-standing'' (insert ''predicted-points'' collapsed1)
             else collapsed1 - {''predicted-points''} - {''predicted-standing''})
      in (tr\<lparr>collapsedColumns := collapsed2\<rparr>, anyFutureVisible))"

text \<open>A column object of \<^verbatim>\<open>getOrderedColumns\<close>.\<close>

record column =
  col_type :: string
  col_round :: roundKey
  col_race :: race
  col_isCollapsed :: bool
  col_isFuture :: bool

text \<open>The loop that builds the column list by \<^verbatim>\<open>columns.push\<close>.\<close>

fun buildColumns_loop ::
  "column list \<Rightarrow> race list \<Rightarrow> results \<Rightarrow> results \<Rightarrow> string set \<Rightarrow> column list" where
  "buildColumns_loop columns [] raceResults sprintResults collapsed = columns"
| "buildColumns_loop columns (race # races) raceResults sprintResults collapsed =
     (let rnd = race_round race;
          hasSprint = (race_Sprint race \<noteq> None);
          columns1 =
            (if hasSprint then
               columns @ [\<lparr>col_type = ''sprint'', col_round = rnd, col_race = race,
                            col_isCollapsed = (sprintColumn rnd \<in> collapsed),
                            col_isFuture = (sprintResults rnd = None)\<rparr>]
             else columns);
          columns2 =
            columns1 @ [\<lparr>col_type = ''race'', col_round = rnd, col_race = race,
                          col_isCollapsed = (raceColumn rnd \<in> collapsed),
                          col_isFuture = (raceResults rnd = None)\<rparr>]
      in buildColumns_loop columns2 races raceResults sprintResults collapsed)"

text \<open>The comparator handed to \<^verbatim>\<open>sort\<close>.\<close>

definition compareCollapsed :: "column \<Rightarrow> column \<Rightarrow> int" where
  "compareCollapsed a b =
     (if col_isCollapsed a = col_isCollapsed b then 0
      else if col_isCollapsed a then 1 else - 1)"

text \<open>
  \<^verbatim>\<open>Array.prototype.sort\<close> with a comparator is a stable sort. It is modelled as the
  stable insertion sort: an element goes in front of the first element it does not
  compare greater than, so elements that compare equal keep their order.
\<close>

fun insertSorted :: "('a \<Rightarrow> 'a \<Rightarrow> int) \<Rightarrow> 'a \<Rightarrow> 'a list \<Rightarrow> 'a list" where
  "insertSorted cmp x [] = [x]"
| "insertSorted cmp x (y # ys) =
     (if cmp x y \<le> 0 then x # y # ys else y # insertSorted cmp x ys)"

definition Array_sort :: "('a \<Rightarrow> 'a \<Rightarrow> int) \<Rightarrow> 'a list \<Rightarrow> 'a list" where
  "Array_sort cmp xs = foldr (insertSorted cmp) xs []"

definition getOrderedColumns ::
  "tableRenderer \<Rightarrow> race list \<Rightarrow> results \<Rightarrow> results \<Rightarrow> column list" where
  "getOrderedColumns tr races raceResults sprintResults =
     Array_sort compareCollapsed
       (buildColumns_loop [] races raceResults sprintResults (collapsedColumns tr))"

section \<open>Application controller\<close>

record f1StandingsApp =
  app_predictionManager :: predictionManager
  app_tableRenderer :: tableRenderer
  app_driversData :: "driver list"
  app_racesData :: "race list"
  app_raceResults :: results
  app_sprintResults :: results
  app_qualifyingResults :: qualifying
  app_sprintQualifyingResults :: qualifying

text \<open>The \<^verbatim>\<open>calculatePoints\<close> closure that \<^verbatim>\<open>renderTable\<close> hands to the renderer.\<close>

definition calculatePoints :: "f1StandingsApp \<Rightarrow> driverId \<Rightarrow> jsnumber" where
  "calculatePoints app driverId =
     calculateTotalPoints driverId (app_racesData app) (app_raceResults app)
       (app_sprintResults app)
       (userPredictions (app_predictionManager app))
       (sprintPredictions (app_predictionManager app))
       (collapsedColumns (app_tableRenderer app))
       (\<lambda>dId r isSprint.
          getPredictedPosition (app_predictionManager app) dId r isSprint
            (app_qualifyingResults app) (app_sprintQualifyingResults app)
            (app_driversData app))"

text \<open>\<^verbatim>\<open>const pos = position === '0' || position === 0 ? null : parseInt(position)\<close>\<close>

definition toPos :: "jsval \<Rightarrow> jsval" where
  "toPos position =
     (if strict_equals position (JString ''0'') \<or> strict_equals position (JNumber (Finite 0))
      then JNull
      else JNumber (parseInt position))"

text \<open>
  The swap loop of \<^verbatim>\<open>updatePrediction\<close>, over \<^verbatim>\<open>Object.entries(predictions)\<close>: at
  the first other driver whose stored position parses to \<^verbatim>\<open>pos\<close>, that driver
  is given \<^verbatim>\<open>predictions[driverId]\<close> and the loop breaks.
\<close>

fun updatePrediction_loop ::
  "predictionManager \<Rightarrow> predictionObject \<Rightarrow> predictionObject \<Rightarrow> driverId \<Rightarrow> roundKey \<Rightarrow> jsval \<Rightarrow>
   predictionManager" where
  "updatePrediction_loop pm [] preds driverId rnd pos = pm"
| "updatePrediction_loop pm ((otherDriverId, otherPos) # rest) preds driverId rnd pos =
     (if otherDriverId \<noteq> driverId \<and> strict_equals (JNumber (parseInt otherPos)) pos then
        (let oldPos = getProperty preds driverId
         in PredictionManager_updatePrediction pm otherDriverId rnd oldPos)
      else updatePrediction_loop pm rest preds driverId rnd pos)"

fun updateSprintPrediction_loop ::
  "predictionManager \<Rightarrow> predictionObject \<Rightarrow> predictionObject \<Rightarrow> driverId \<Rightarrow> roundKey \<Rightarrow> jsval \<Rightarrow>
   predictionManager" where
  "updateSprintPrediction_loop pm [] preds driverId rnd pos = pm"
| "updateSprintPrediction_loop pm ((otherDriverId, otherPos) # rest) preds driverId rnd pos =
     (if otherDriverId \<noteq> driverId \<and> strict_equals (JNumber (parseInt otherPos)) pos then
        (let oldPos = getProperty preds driverId
         in PredictionManager_updateSprintPrediction pm otherDriverId rnd oldPos)
      else updateSprintPrediction_loop pm rest preds driverId rnd pos)"

text \<open>
  \<^verbatim>\<open>F1StandingsApp.updatePrediction\<close> and \<^verbatim>\<open>updateSprintPrediction\<close>. The select
  element argument is not read, and \<^verbatim>\<open>renderTable\<close> only produces markup, so neither
  appears here.
\<close>

definition updatePrediction :: "f1StandingsApp \<Rightarrow> driverId \<Rightarrow> roundKey \<Rightarrow> jsval \<Rightarrow> f1StandingsApp" where
  "updatePrediction app driverId rnd position =
     (let pos = toPos position;
          pm = app_predictionManager app;
          pm1 =
            (if js_truthy pos \<and> js_greater_zero pos then
               (let preds = (case userPredictions pm rnd of None \<Rightarrow> [] | Some obj \<Rightarrow> obj)
                in updatePrediction_loop pm preds preds driverId rnd pos)
             else pm)
      in app\<lparr>app_predictionManager := PredictionManager_updatePrediction pm1 driverId rnd pos\<rparr>)"

definition updateSprintPrediction ::
  "f1StandingsApp \<Rightarrow> driverId \<Rightarrow> roundKey \<Rightarrow> jsval \<Rightarrow> f1StandingsApp" where
  "updateSprintPrediction app driverId rnd position =
     (let pos = toPos position;
          pm = app_predictionManager app;
          pm1 =
            (if js_truthy pos \<and> js_greater_zero pos then
               (let preds = (case sprintPredictions pm rnd of None \<Rightarrow> [] | Some obj \<Rightarrow> obj)
                in updateSprintPrediction_loop pm preds preds driverId rnd pos)
             else pm)
      in app\<lparr>app_predictionManager :=
               PredictionManager_updateSprintPrediction pm1 driverId rnd pos\<rparr>)"

section \<open>Notions used to state the properties\<close>

text \<open>
  The columns of events that have no result yet: the race column of every race without
  a race result, and the sprint column of every sprint weekend without a sprint result.
\<close>

definition unresolvedColumns :: "race list \<Rightarrow> results \<Rightarrow> results \<Rightarrow> string set" where
  "unresolvedColumns races raceResults sprintResults =
     set (map (\<lambda>race. raceColumn (race_round race))
            (filter (\<lambda>race. raceResults (race_round race) = None) races))
     \<union> set (map (\<lambda>race. sprintColumn (race_round race))
            (filter (\<lambda>race. race_Sprint race \<noteq> None \<and> sprintResults (race_round race) = None)
               races))"

text \<open>The columns in chronological order, the sprint column of a round before its race
  column, each carrying its collapsed state.\<close>

definition chronologicalColumns ::
  "string set \<Rightarrow> race list \<Rightarrow> results \<Rightarrow> results \<Rightarrow> column list" where
  "chronologicalColumns collapsed races raceResults sprintResults =
     concat (map (\<lambda>race.
        (if race_Sprint race \<noteq> None
         then [\<lparr>col_type = ''sprint'', col_round = race_round race, col_race = race,
                 col_isCollapsed = (sprintColumn (race_round race) \<in> collapsed),
                 col_isFuture = (sprintResults (race_round race) = None)\<rparr>]
         else [])
        @ [\<lparr>col_type = ''race'', col_round = race_round race, col_race = race,
              col_isCollapsed = (raceColumn (race_round race) \<in> collapsed),
              col_isFuture = (raceResults (race_round race) = None)\<rparr>]) races)"

text \<open>The entry of a prediction store for a round and a driver, if there is one.\<close>

definition storedEntry :: "predictions \<Rightarrow> roundKey \<Rightarrow> driverId \<Rightarrow> jsval option" where
  "storedEntry preds rnd d = (case preds rnd of None \<Rightarrow> None | Some obj \<Rightarrow> map_of obj d)"

text \<open>The first driver other than \<open>driverId\<close>, in the order of \<^verbatim>\<open>Object.entries\<close>,
  whose stored value parses to the position \<open>p\<close>.\<close>

definition firstOtherHolder :: "predictions \<Rightarrow> roundKey \<Rightarrow> driverId \<Rightarrow> int \<Rightarrow> driverId option" where
  "firstOtherHolder preds rnd driverId p =
     (case preds rnd of
        None \<Rightarrow> None
      | Some obj \<Rightarrow>
          map_option fst (find (\<lambda>(other, v). other \<noteq> driverId \<and> parseInt v = Finite p) obj))"

text \<open>The concrete position a stored value stands for: a number above 0 after
  \<^verbatim>\<open>parseInt\<close>, as the swap loop reads it. \<^verbatim>\<open>null\<close>, \<^verbatim>\<open>undefined\<close> and 0 stand for
  none.\<close>

definition concretePosition :: "jsval \<Rightarrow> int option" where
  "concretePosition v =
     (case parseInt v of NaN \<Rightarrow> None | Finite p \<Rightarrow> (if p > 0 then Some p else None))"

text \<open>The one-to-one invariant of the predictions of one round and event kind: no two
  drivers hold the same concrete position. The object has each key once.\<close>

definition oneToOne :: "predictionObject \<Rightarrow> bool" where
  "oneToOne obj =
     (distinct (map fst obj)
      \<and> (\<forall>(d1, v1) \<in> set obj. \<forall>(d2, v2) \<in> set obj.
           concretePosition v1 \<noteq> None \<and> concretePosition v1 = concretePosition v2
             \<longrightarrow> d1 = d2))"

text \<open>The invariant for a whole store: every round's object satisfies it.\<close>

definition storeOneToOne :: "predictions \<Rightarrow> roundKey \<Rightarrow> bool" where
  "storeOneToOne preds rnd = (case preds rnd of None \<Rightarrow> True | Some obj \<Rightarrow> oneToOne obj)"

text \<open>The object of a round after a write of \<open>pos\<close> for \<open>driverId\<close>, as one step: the
  first other holder of a written positive position, if any, receives the writer's
  previous value, then the writer's entry is set.\<close>

definition writtenObject :: "predictionObject \<Rightarrow> driverId \<Rightarrow> jsval \<Rightarrow> predictionObject" where
  "writtenObject obj driverId pos =
     (case pos of
        JNumber (Finite p) \<Rightarrow>
          (if p > 0 then
             (case find (\<lambda>(other, v). other \<noteq> driverId \<and> parseInt v = Finite p) obj of
                None \<Rightarrow> AList.update driverId pos obj
              | Some (other, v) \<Rightarrow>
                  AList.update driverId pos (AList.update other (getProperty obj driverId) obj))
           else AList.update driverId pos obj)
      | _ \<Rightarrow> AList.update driverId pos obj)"

section \<open>Sample data\<close>

text \<open>A small season used to run the theorems on concrete inputs: round 6 has
  qualifying published, round 7 has not; one driver stands 21st.\<close>

definition example_predictionManager :: predictionManager where
  "example_predictionManager =
     \<lparr>userPredictions =
        [''6'' \<mapsto> [(''leclerc'', JNumber (Finite 4)), (''sainz'', JNull)]],
      sprintPredictions = Map.empty\<rparr>"

definition example_qualifying :: qualifying where
  "example_qualifying =
     [''6'' \<mapsto> [\<lparr>q_driverId = ''leclerc'', q_position = ''1''\<rparr>,
                \<lparr>q_driverId = ''russell'', q_position = ''3''\<rparr>]]"

definition example_drivers :: "driver list" where
  "example_drivers =
     [\<lparr>d_driverId = ''leclerc'', d_position = 3, d_currentPoints = 120\<rparr>,
      \<lparr>d_driverId = ''russell'', d_position = 4, d_currentPoints = 99\<rparr>,
      \<lparr>d_driverId = ''sainz'', d_position = 5, d_currentPoints = 90\<rparr>,
      \<lparr>d_driverId = ''alonso'', d_position = 7, d_currentPoints = 40\<rparr>,
      \<lparr>d_driverId = ''doohan'', d_position = 21, d_currentPoints = 0\<rparr>]"

text \<open>A season of one race that has been run: only \<^verbatim>\<open>leclerc\<close> is classified in
  round 1; \<^verbatim>\<open>russell\<close>, fourth in the standings, did not take part.\<close>

definition example_app :: f1StandingsApp where
  "example_app =
     \<lparr>app_predictionManager =
        \<lparr>userPredictions = Map.empty, sprintPredictions = Map.empty\<rparr>,
      app_tableRenderer = \<lparr>collapsedColumns = {}\<rparr>,
      app_driversData = example_drivers,
      app_racesData =
        [\<lparr>race_round = ''1'', race_raceName = ''Australian Grand Prix'',
          race_Sprint = None\<rparr>],
      app_raceResults =
        [''1'' \<mapsto> [\<lparr>r_driverId = ''leclerc'', r_positionText = ''1'', r_position = ''1'',
                     r_points = ''25''\<rparr>]],
      app_sprintResults = Map.empty,
      app_qualifyingResults = Map.empty,
      app_sprintQualifyingResults = Map.empty\<rparr>"

text \<open>The sample application with predictions for round 7, race and sprint alike:
  \<^verbatim>\<open>hamilton\<close> at 1, \<^verbatim>\<open>verstappen\<close> at 2, \<^verbatim>\<open>norris\<close> without a prediction.\<close>

definition example_swap_app :: f1StandingsApp where
  "example_swap_app =
     example_app
       \<lparr>app_predictionManager :=
          \<lparr>userPredictions =
             [''7'' \<mapsto> [(''hamilton'', JNumber (Finite 1)), (''verstappen'', JNumber (Finite 2)),
                        (''norris'', JNull)],
              ''8'' \<mapsto> [(''hamilton'', JNumber (Finite 5))]],
           sprintPredictions =
             [''7'' \<mapsto> [(''hamilton'', JNumber (Finite 1)), (''verstappen'', JNumber (Finite 2)),
                        (''norris'', JNull)]]\<rparr>\<rparr>"

section \<open>Facts about \<^verbatim>\<open>parseInt\<close>\<close>

lemma digitValue_digitChar: "d < 10 \<Longrightarrow> digitValue (digitChar d) = Some d"
proof -
  assume "d < 10"
  then have "d \<in> {0, 1, 2, 3, 4, 5, 6, 7, 8, 9}" by auto
  then show ?thesis
    by (auto simp: digitValue_def digitChar_def)
qed

lemma isRadixDigit_digitChar: "d < 10 \<Longrightarrow> isRadixDigit 10 (digitChar d)"
  by (simp add: isRadixDigit_def digitValue_digitChar)

lemma toDecimal_digits: "\<forall>c \<in> set (toDecimal n). isRadixDigit 10 c"
proof (induction n rule: toDecimal.induct)
  case (1 n)
  show ?case
  proof (cases "n < 10")
    case True
    then show ?thesis
      by (subst toDecimal.simps) (simp add: isRadixDigit_digitChar)
  next
    case False
    with 1 show ?thesis
      by (subst toDecimal.simps) (simp add: isRadixDigit_digitChar)
  qed
qed

lemma toDecimal_nonempty: "toDecimal n \<noteq> []"
  by (subst toDecimal.simps) simp

lemma digitsValue_snoc:
  "digitsValue r (ds @ [c]) = digitsValue r ds * r + (case digitValue c of None \<Rightarrow> 0 | Some d \<Rightarrow> d)"
  by (simp add: digitsValue_def)

lemma digitsValue_toDecimal: "digitsValue 10 (toDecimal n) = n"
proof (induction n rule: toDecimal.induct)
  case (1 n)
  show ?case
  proof (cases "n < 10")
    case True
    then show ?thesis
      by (subst toDecimal.simps) (simp add: digitsValue_def digitValue_digitChar)
  next
    case False
    with 1 have "digitsValue 10 (toDecimal (n div 10)) = n div 10" by simp
    with False show ?thesis
      by (subst toDecimal.simps) (simp add: digitsValue_snoc digitValue_digitChar)
  qed
qed

lemma isRadixDigit_10_cases:
  "isRadixDigit 10 c \<Longrightarrow> c \<in> set ''0123456789''"
  by (auto simp: isRadixDigit_def digitValue_def split: if_splits option.splits)

lemma parseInt_string_digits:
  assumes "ds \<noteq> []" and "\<forall>c \<in> set ds. isRadixDigit 10 c"
  shows "parseInt_string ds = Finite (int (digitsValue 10 ds))"
proof -
  obtain c rest where ds: "ds = c # rest" using assms(1) by (cases ds) auto
  have c: "c \<in> set ''0123456789''"
    using assms(2) ds isRadixDigit_10_cases by simp
  have nows: "\<not> isWhiteSpace c" using c by (auto simp: isWhiteSpace_def)
  have nosign: "c \<noteq> CHR ''-''" "c \<noteq> CHR ''+''" using c by auto
  have nohex: "\<not> (case ds of c # d # _ \<Rightarrow> c = CHR ''0'' \<and> (d = CHR ''x'' \<or> d = CHR ''X'') | _ \<Rightarrow> False)"
  proof (cases rest)
    case Nil
    then show ?thesis using ds by simp
  next
    case (Cons d rest')
    then have "d \<in> set ''0123456789''"
      using assms(2) ds isRadixDigit_10_cases by simp
    then have "d \<noteq> CHR ''x''" "d \<noteq> CHR ''X''" by auto
    then show ?thesis using ds Cons by simp
  qed
  have drop: "dropWhile isWhiteSpace ds = ds" using ds nows by simp
  have tw: "takeWhile (isRadixDigit 10) ds = ds" using assms(2) by (simp add: takeWhile_eq_all_conv)
  show ?thesis
    unfolding parseInt_string_def drop Let_def
    using nohex nosign tw assms(1) ds by simp
qed

lemma parseInt_string_toDecimal: "parseInt_string (toDecimal n) = Finite (int n)"
  using parseInt_string_digits [OF toDecimal_nonempty, of n] toDecimal_digits [of n]
  by (simp add: digitsValue_toDecimal)

lemma parseInt_string_minus_digits:
  assumes "ds \<noteq> []" and "\<forall>c \<in> set ds. isRadixDigit 10 c"
  shows "parseInt_string (CHR ''-'' # ds) = Finite (- int (digitsValue 10 ds))"
proof -
  obtain c rest where ds: "ds = c # rest" using assms(1) by (cases ds) auto
  have nohex: "\<not> (case ds of c # d # _ \<Rightarrow> c = CHR ''0'' \<and> (d = CHR ''x'' \<or> d = CHR ''X'') | _ \<Rightarrow> False)"
  proof (cases rest)
    case Nil
    then show ?thesis using ds by simp
  next
    case (Cons d rest')
    then have "d \<in> set ''0123456789''"
      using assms(2) ds isRadixDigit_10_cases by simp
    then have "d \<noteq> CHR ''x''" "d \<noteq> CHR ''X''" by auto
    then show ?thesis using ds Cons by simp
  qed
  have nows: "\<not> isWhiteSpace CHR ''-''" by (simp add: isWhiteSpace_def)
  have tw: "\<And>P. \<forall>c \<in> set ds. P c \<Longrightarrow> takeWhile P ds = ds"
    by (simp add: takeWhile_eq_all_conv)
  show ?thesis
    unfolding parseInt_string_def Let_def
    using nohex nows assms by (simp add: tw)
qed

lemma parseInt_Finite: "parseInt (JNumber (Finite i)) = Finite i"
proof (cases "i < 0")
  case True
  then show ?thesis
    using parseInt_string_minus_digits [OF toDecimal_nonempty, of "nat (- i)"]
      toDecimal_digits [of "nat (- i)"]
    by (simp add: parseInt_def intToString_def digitsValue_toDecimal)
next
  case False
  then show ?thesis
    by (simp add: parseInt_def intToString_def parseInt_string_toDecimal)
qed

lemma parseInt_decimal_string: "parseInt (JString (toDecimal n)) = Finite (int n)"
  by (simp add: parseInt_def parseInt_string_toDecimal)

lemma parseInt_JUndefined: "parseInt JUndefined = NaN"
  by (simp add: parseInt_def parseInt_string_def isWhiteSpace_def isRadixDigit_def digitValue_def)

lemma parseInt_JNull: "parseInt JNull = NaN"
  by (simp add: parseInt_def parseInt_string_def isWhiteSpace_def isRadixDigit_def digitValue_def)

lemma parseInt_NaN: "parseInt (JNumber NaN) = NaN"
  by (simp add: parseInt_def parseInt_string_def isWhiteSpace_def isRadixDigit_def digitValue_def)

section \<open>Actual results\<close>

text \<open>
  C8. In a round with a classification in which the driver has an entry, both
  \<^verbatim>\<open>getDriverRaceResult\<close> and \<^verbatim>\<open>getDriverSprintResult\<close> return an object (not
  \<^verbatim>\<open>null\<close>) with \<^verbatim>\<open>isActual\<close> true and with the points the provider stored: for
  stored points \<open>pts\<close>, sent as the decimal string of \<open>pts\<close>, the returned points are
  \<open>pts\<close>, whatever the position is; no points table is consulted. A position text
  \<^verbatim>\<open>"R"\<close> gives position 0 in such an actual result.
\<close>

theorem getDriverResult_actual_points_as_stored:
  assumes "results rnd = Some entries"
    and "find (\<lambda>r. r_driverId r = driverId) entries = Some e"
    and "r_points e = toDecimal pts"
  shows "getDriverRaceResult driverId rnd results =
           Some \<lparr>res_position =
                   (if r_positionText e = ''R'' then Finite 0
                    else parseInt (JString (r_position e))),
                 res_points = Finite (int pts), res_isActual = True\<rparr>
       \<and> getDriverSprintResult driverId rnd results =
           Some \<lparr>res_position =
                   (if r_positionText e = ''R'' then Finite 0
                    else parseInt (JString (r_position e))),
                 res_points = Finite (int pts), res_isActual = True\<rparr>"
  using assms
  by (simp add: getDriverRaceResult_def getDriverSprintResult_def parseInt_Finite
      parseInt_decimal_string)

text \<open>
  The theorem at round 5 with two entries: a retired driver, and a winner whose stored
  26 points differ from the 25 of the points table.
\<close>

theorem getDriverResult_actual_points_as_stored_witness:
  "[''5'' \<mapsto>
      [\<lparr>r_driverId = ''albon'', r_positionText = ''R'', r_position = ''18'', r_points = ''0''\<rparr>,
       \<lparr>r_driverId = ''norris'', r_positionText = ''1'', r_position = ''1'', r_points = ''26''\<rparr>]]
     ''5'' =
     Some
      [\<lparr>r_driverId = ''albon'', r_positionText = ''R'', r_position = ''18'', r_points = ''0''\<rparr>,
       \<lparr>r_driverId = ''norris'', r_positionText = ''1'', r_position = ''1'', r_points = ''26''\<rparr>]
   \<and> find (\<lambda>r. r_driverId r = ''albon'')
      [\<lparr>r_driverId = ''albon'', r_positionText = ''R'', r_position = ''18'', r_points = ''0''\<rparr>,
       \<lparr>r_driverId = ''norris'', r_positionText = ''1'', r_position = ''1'', r_points = ''26''\<rparr>] =
     Some \<lparr>r_driverId = ''albon'', r_positionText = ''R'', r_position = ''18'', r_points = ''0''\<rparr>
   \<and> ''0'' = toDecimal 0
   \<and> ''26'' = toDecimal 26
   \<and> getDriverRaceResult ''albon'' ''5''
       [''5'' \<mapsto>
        [\<lparr>r_driverId = ''albon'', r_positionText = ''R'', r_position = ''18'', r_points = ''0''\<rparr>,
         \<lparr>r_driverId = ''norris'', r_positionText = ''1'', r_position = ''1'', r_points = ''26''\<rparr>]] =
     Some \<lparr>res_position = Finite 0, res_points = Finite 0, res_isActual = True\<rparr>
   \<and> getDriverSprintResult ''norris'' ''5''
       [''5'' \<mapsto>
        [\<lparr>r_driverId = ''albon'', r_positionText = ''R'', r_position = ''18'', r_points = ''0''\<rparr>,
         \<lparr>r_driverId = ''norris'', r_positionText = ''1'', r_position = ''1'', r_points = ''26''\<rparr>]] =
     Some \<lparr>res_position = Finite 1, res_points = Finite 26, res_isActual = True\<rparr>
   \<and> getRacePoints (Finite 1) = 25"
proof -
  let ?a = "\<lparr>r_driverId = ''albon'', r_positionText = ''R'', r_position = ''18'', r_points = ''0''\<rparr>"
  let ?n = "\<lparr>r_driverId = ''norris'', r_positionText = ''1'', r_position = ''1'', r_points = ''26''\<rparr>"
  let ?W = "[''5'' \<mapsto> [?a, ?n]]"
  have h1: "?W ''5'' = Some [?a, ?n]" by simp
  have ha: "find (\<lambda>r. r_driverId r = ''albon'') [?a, ?n] = Some ?a" by simp
  have hn: "find (\<lambda>r. r_driverId r = ''norris'') [?a, ?n] = Some ?n" by simp
  have d0: "''0'' = toDecimal 0" by (simp add: toDecimal.simps digitChar_def)
  have d26: "''26'' = toDecimal 26" by (simp add: toDecimal.simps digitChar_def)
  have pa: "r_points ?a = toDecimal 0" using d0 by simp
  have pn: "r_points ?n = toDecimal 26" using d26 by simp
  have one: "parseInt (JString ''1'') = Finite 1"
    using parseInt_decimal_string [of 1] by (simp add: toDecimal.simps digitChar_def)
  have ra: "getDriverRaceResult ''albon'' ''5'' ?W =
      Some \<lparr>res_position = Finite 0, res_points = Finite 0, res_isActual = True\<rparr>"
    using getDriverResult_actual_points_as_stored [where results = ?W and rnd = "''5''", OF h1 ha pa]
    by simp
  have rn: "getDriverSprintResult ''norris'' ''5'' ?W =
      Some \<lparr>res_position = Finite 1, res_points = Finite 26, res_isActual = True\<rparr>"
    using getDriverResult_actual_points_as_stored [where results = ?W and rnd = "''5''", OF h1 hn pn]
      one
    by simp
  have tbl: "getRacePoints (Finite 1) = 25" by (simp add: POINTS_SYSTEM_def)
  show ?thesis using h1 ha d0 d26 ra rn tbl by blast
qed


section \<open>Predicted positions\<close>

text \<open>
  The priority chain of the predicted position, for a stored entry that is a position or
  \<^verbatim>\<open>null\<close>. With \<open>stored\<close> the entry of
  the prediction store for the round, the event kind and the driver: a stored position
  \<open>p\<close> is returned as \<open>p\<close> and a stored \<^verbatim>\<open>null\<close> (no prediction) gives 0. Without
  a stored entry, when qualifying data for the round and kind is published, the driver's
  qualifying position is returned if the driver appears in it and 0 if not. Without
  either, the driver's championship position is returned when it is at most 20, and 0
  when it is above 20 or the driver is not in the standings.
\<close>

theorem getPredictedPosition_priority_chain:
  "(let preds = (if isSprint then sprintPredictions pm else userPredictions pm);
        quals = (if isSprint then sqr else qr);
        stored = (case preds rnd of None \<Rightarrow> None | Some obj \<Rightarrow> map_of obj driverId);
        predicted = getPredictedPosition pm driverId rnd isSprint qr sqr drivers
    in (\<forall>p. stored = Some (JNumber (Finite p)) \<longrightarrow> predicted = Finite p)
     \<and> (stored = Some JNull \<longrightarrow> predicted = Finite 0)
     \<and> (stored = None \<longrightarrow>
          (\<forall>qs q n. quals rnd = Some qs
               \<and> find (\<lambda>q. q_driverId q = driverId) qs = Some q
               \<and> q_position q = toDecimal n
             \<longrightarrow> predicted = Finite (int n))
        \<and> (\<forall>qs. quals rnd = Some qs \<and> find (\<lambda>q. q_driverId q = driverId) qs = None
             \<longrightarrow> predicted = Finite 0)
        \<and> (quals rnd = None \<longrightarrow>
             (\<forall>drv. find (\<lambda>d. d_driverId d = driverId) drivers = Some drv
                  \<and> d_position drv \<le> 20
                \<longrightarrow> predicted = Finite (d_position drv))
           \<and> (\<forall>drv. find (\<lambda>d. d_driverId d = driverId) drivers = Some drv
                  \<and> d_position drv > 20
                \<longrightarrow> predicted = Finite 0)
           \<and> (find (\<lambda>d. d_driverId d = driverId) drivers = None
                \<longrightarrow> predicted = Finite 0))))"
  unfolding Let_def getPredictedPosition_def
  by (auto simp: parseInt_Finite parseInt_decimal_string split: option.splits)

text \<open>
  The chain on the sample season, one driver per branch: a stored position wins over a
  qualifying position, a stored \<^verbatim>\<open>null\<close> gives 0, a qualifying position is used
  when nothing is stored, a driver missing from published qualifying gets 0, and without
  qualifying data the championship position decides.
\<close>

theorem getPredictedPosition_priority_chain_witness:
  "getPredictedPosition example_predictionManager ''leclerc'' ''6'' False
     example_qualifying Map.empty example_drivers = Finite 4
   \<and> getPredictedPosition example_predictionManager ''sainz'' ''6'' False
     example_qualifying Map.empty example_drivers = Finite 0
   \<and> getPredictedPosition example_predictionManager ''russell'' ''6'' False
     example_qualifying Map.empty example_drivers = Finite 3
   \<and> getPredictedPosition example_predictionManager ''alonso'' ''6'' False
     example_qualifying Map.empty example_drivers = Finite 0
   \<and> getPredictedPosition example_predictionManager ''alonso'' ''7'' False
     example_qualifying Map.empty example_drivers = Finite 7
   \<and> getPredictedPosition example_predictionManager ''doohan'' ''7'' False
     example_qualifying Map.empty example_drivers = Finite 0
   \<and> getPredictedPosition example_predictionManager ''lauda'' ''7'' False
     example_qualifying Map.empty example_drivers = Finite 0
   \<and> getPredictedPosition example_predictionManager ''leclerc'' ''6'' True
     example_qualifying Map.empty example_drivers = Finite 3"
proof -
  note defs = example_predictionManager_def example_qualifying_def example_drivers_def
  have dec3: "''3'' = toDecimal 3" by (simp add: toDecimal.simps digitChar_def)
  have stored: "getPredictedPosition example_predictionManager ''leclerc'' ''6'' False
      example_qualifying Map.empty example_drivers = Finite 4"
    using getPredictedPosition_priority_chain [where pm = example_predictionManager
        and driverId = "''leclerc''" and rnd = "''6''" and isSprint = False
        and qr = example_qualifying and sqr = Map.empty and drivers = example_drivers]
    by (simp add: Let_def defs)
  have stored_null: "getPredictedPosition example_predictionManager ''sainz'' ''6'' False
      example_qualifying Map.empty example_drivers = Finite 0"
    using getPredictedPosition_priority_chain [where pm = example_predictionManager
        and driverId = "''sainz''" and rnd = "''6''" and isSprint = False
        and qr = example_qualifying and sqr = Map.empty and drivers = example_drivers]
    by (simp add: Let_def defs)
  have in_qualifying: "getPredictedPosition example_predictionManager ''russell'' ''6'' False
      example_qualifying Map.empty example_drivers = Finite 3"
    using getPredictedPosition_priority_chain [where pm = example_predictionManager
        and driverId = "''russell''" and rnd = "''6''" and isSprint = False
        and qr = example_qualifying and sqr = Map.empty and drivers = example_drivers] dec3
    by (simp add: Let_def defs)
  have out_of_qualifying: "getPredictedPosition example_predictionManager ''alonso'' ''6'' False
      example_qualifying Map.empty example_drivers = Finite 0"
    using getPredictedPosition_priority_chain [where pm = example_predictionManager
        and driverId = "''alonso''" and rnd = "''6''" and isSprint = False
        and qr = example_qualifying and sqr = Map.empty and drivers = example_drivers]
    by (simp add: Let_def defs)
  have standing: "getPredictedPosition example_predictionManager ''alonso'' ''7'' False
      example_qualifying Map.empty example_drivers = Finite 7"
    using getPredictedPosition_priority_chain [where pm = example_predictionManager
        and driverId = "''alonso''" and rnd = "''7''" and isSprint = False
        and qr = example_qualifying and sqr = Map.empty and drivers = example_drivers]
    by (simp add: Let_def defs)
  have beyond: "getPredictedPosition example_predictionManager ''doohan'' ''7'' False
      example_qualifying Map.empty example_drivers = Finite 0"
    using getPredictedPosition_priority_chain [where pm = example_predictionManager
        and driverId = "''doohan''" and rnd = "''7''" and isSprint = False
        and qr = example_qualifying and sqr = Map.empty and drivers = example_drivers]
    by (simp add: Let_def defs)
  have unknown: "getPredictedPosition example_predictionManager ''lauda'' ''7'' False
      example_qualifying Map.empty example_drivers = Finite 0"
    using getPredictedPosition_priority_chain [where pm = example_predictionManager
        and driverId = "''lauda''" and rnd = "''7''" and isSprint = False
        and qr = example_qualifying and sqr = Map.empty and drivers = example_drivers]
    by (simp add: Let_def defs)
  have sprint: "getPredictedPosition example_predictionManager ''leclerc'' ''6'' True
      example_qualifying Map.empty example_drivers = Finite 3"
    using getPredictedPosition_priority_chain [where pm = example_predictionManager
        and driverId = "''leclerc''" and rnd = "''6''" and isSprint = True
        and qr = example_qualifying and sqr = Map.empty and drivers = example_drivers]
    by (simp add: Let_def defs)
  show ?thesis
    using stored stored_null in_qualifying out_of_qualifying standing beyond unknown sprint
    by blast
qed

text \<open>
  C2, as the code has it. A driver whose championship position is above 20 gets the
  predicted position 0 when the prediction store has no entry for that driver in the
  round and event kind, and the driver has no qualifying entry there (qualifying not
  published, or published without the driver).
\<close>

theorem getPredictedPosition_beyond_20_without_entry:
  assumes "find (\<lambda>d. d_driverId d = driverId) drivers = Some drv"
    and "d_position drv > 20"
    and "(case (if isSprint then sprintPredictions pm else userPredictions pm) rnd of
            None \<Rightarrow> None | Some obj \<Rightarrow> map_of obj driverId) = None"
    and "(case (if isSprint then sqr else qr) rnd of
            None \<Rightarrow> True | Some qs \<Rightarrow> find (\<lambda>q. q_driverId q = driverId) qs = None)"
  shows "getPredictedPosition pm driverId rnd isSprint qr sqr drivers = Finite 0"
  using assms
  unfolding getPredictedPosition_def Let_def
  by (auto split: option.splits if_splits)

theorem getPredictedPosition_beyond_20_without_entry_witness:
  "find (\<lambda>d. d_driverId d = ''doohan'') example_drivers =
     Some \<lparr>d_driverId = ''doohan'', d_position = 21, d_currentPoints = 0\<rparr>
   \<and> getPredictedPosition example_predictionManager ''doohan'' ''7'' False
       example_qualifying Map.empty example_drivers = Finite 0
   \<and> getPredictedPosition example_predictionManager ''doohan'' ''6'' False
       example_qualifying Map.empty example_drivers = Finite 0"
proof -
  let ?drv = "\<lparr>d_driverId = ''doohan'', d_position = 21, d_currentPoints = 0\<rparr>"
  have f: "find (\<lambda>d. d_driverId d = ''doohan'') example_drivers = Some ?drv"
    by (simp add: example_drivers_def)
  have p: "d_position ?drv > 20" by simp
  have r7: "getPredictedPosition example_predictionManager ''doohan'' ''7'' False
       example_qualifying Map.empty example_drivers = Finite 0"
    by (rule getPredictedPosition_beyond_20_without_entry [OF f p])
      (simp_all add: example_predictionManager_def example_qualifying_def)
  have r6: "getPredictedPosition example_predictionManager ''doohan'' ''6'' False
       example_qualifying Map.empty example_drivers = Finite 0"
    by (rule getPredictedPosition_beyond_20_without_entry [OF f p])
      (simp_all add: example_predictionManager_def example_qualifying_def)
  show ?thesis using f r7 r6 by blast
qed

text \<open>
  The claim as written fails: with championship position 21, a stored prediction of 3
  is returned as 3, and without one a published qualifying position 5 is returned as 5.
\<close>

theorem getPredictedPosition_beyond_20_counterexample:
  "find (\<lambda>d. d_driverId d = ''doohan'') example_drivers =
     Some \<lparr>d_driverId = ''doohan'', d_position = 21, d_currentPoints = 0\<rparr>
   \<and> getPredictedPosition
       \<lparr>userPredictions = [''7'' \<mapsto> [(''doohan'', JNumber (Finite 3))]],
        sprintPredictions = Map.empty\<rparr>
       ''doohan'' ''7'' False Map.empty Map.empty example_drivers = Finite 3
   \<and> getPredictedPosition
       \<lparr>userPredictions = Map.empty, sprintPredictions = Map.empty\<rparr>
       ''doohan'' ''7'' False
       [''7'' \<mapsto> [\<lparr>q_driverId = ''doohan'', q_position = ''5''\<rparr>]] Map.empty
       example_drivers = Finite 5"
proof -
  have five: "parseInt (JString ''5'') = Finite 5"
    using parseInt_decimal_string [of 5] by (simp add: toDecimal.simps digitChar_def)
  show ?thesis
    by (simp add: getPredictedPosition_def example_drivers_def parseInt_Finite five)
qed

section \<open>Totals\<close>

text \<open>
  C1. The claim is that a driver missing from the classification of a round that has
  been run gets nothing for that round. On the sample season round 1 has a
  classification, \<^verbatim>\<open>russell\<close> is not in it and \<^verbatim>\<open>getDriverRaceResult\<close> returns
  \<^verbatim>\<open>null\<close> for him, yet \<^verbatim>\<open>calculateTotalPoints\<close> falls through to the predicted
  position, finds his championship position 4 and adds the 12 points of a fourth place.
\<close>

theorem calculatePoints_absent_driver_gets_prediction:
  "app_raceResults example_app ''1'' =
     Some [\<lparr>r_driverId = ''leclerc'', r_positionText = ''1'', r_position = ''1'',
            r_points = ''25''\<rparr>]
   \<and> getDriverRaceResult ''russell'' ''1'' (app_raceResults example_app) = None
   \<and> calculatePoints example_app ''russell'' = Finite 12
   \<and> calculatePoints example_app ''leclerc'' = Finite 25"
proof -
  have p25: "parseInt (JString ''25'') = Finite 25"
    using parseInt_decimal_string [of 25] by (simp add: toDecimal.simps digitChar_def)
  show ?thesis
    by (simp add: example_app_def example_drivers_def calculatePoints_def
        calculateTotalPoints_def getDriverRaceResult_def getPredictedPosition_def
        raceColumn_def sprintColumn_def POINTS_SYSTEM_def p25)
qed


section \<open>Column visibility\<close>

lemma anyFutureVisible_loop_iff:
  "anyFutureVisible_loop races rr collapsed =
     (\<exists>race \<in> set races. rr (race_round race) = None
        \<and> raceColumn (race_round race) \<notin> collapsed)"
  by (induction races) auto

lemma unresolvedColumns_Nil: "unresolvedColumns [] rr sr = {}"
  by (simp add: unresolvedColumns_def)

lemma unresolvedColumns_Cons:
  "unresolvedColumns (race # races) rr sr =
     (if rr (race_round race) = None then {raceColumn (race_round race)} else {})
     \<union> (if race_Sprint race \<noteq> None \<and> sr (race_round race) = None
        then {sprintColumn (race_round race)} else {})
     \<union> unresolvedColumns races rr sr"
  by (auto simp: unresolvedColumns_def)

lemma toggleFuture_loop_collapse:
  "toggleFuture_loop True races rr sr collapsed = collapsed \<union> unresolvedColumns races rr sr"
proof (induction races arbitrary: collapsed)
  case Nil
  show ?case by (simp add: unresolvedColumns_Nil)
next
  case (Cons race races)
  show ?case
    by (auto simp: Cons.IH unresolvedColumns_Cons Let_def)
qed

lemma toggleFuture_loop_expand:
  "toggleFuture_loop False races rr sr collapsed = collapsed - unresolvedColumns races rr sr"
proof (induction races arbitrary: collapsed)
  case Nil
  show ?case by (simp add: unresolvedColumns_Nil)
next
  case (Cons race races)
  show ?case
    by (auto simp: Cons.IH unresolvedColumns_Cons Let_def)
qed

lemma toggleAllFuture_sets:
  "toggleAllFuture tr races rr sr =
     (if \<exists>race \<in> set races. rr (race_round race) = None
           \<and> raceColumn (race_round race) \<notin> collapsedColumns tr
      then (tr\<lparr>collapsedColumns :=
                 collapsedColumns tr \<union> unresolvedColumns races rr sr
                   \<union> {''predicted-points'', ''predicted-standing''}\<rparr>, True)
      else (tr\<lparr>collapsedColumns :=
                 collapsedColumns tr - unresolvedColumns races rr sr
                   - {''predicted-points'', ''predicted-standing''}\<rparr>, False))"
proof (cases "\<exists>race \<in> set races. rr (race_round race) = None
           \<and> raceColumn (race_round race) \<notin> collapsedColumns tr")
  case True
  then have v: "anyFutureVisible_loop races rr (collapsedColumns tr)"
    by (simp add: anyFutureVisible_loop_iff)
  have "insert ''predicted-standing''
          (insert ''predicted-points'' (collapsedColumns tr \<union> unresolvedColumns races rr sr)) =
        collapsedColumns tr \<union> unresolvedColumns races rr sr
          \<union> {''predicted-points'', ''predicted-standing''}"
    by blast
  with True v show ?thesis
    by (simp add: toggleAllFuture_def Let_def toggleFuture_loop_collapse)
next
  case False
  then have v: "\<not> anyFutureVisible_loop races rr (collapsedColumns tr)"
    by (simp add: anyFutureVisible_loop_iff)
  have "collapsedColumns tr - unresolvedColumns races rr sr - {''predicted-points''}
          - {''predicted-standing''} =
        collapsedColumns tr - unresolvedColumns races rr sr
          - {''predicted-points'', ''predicted-standing''}"
    by blast
  with False v show ?thesis
    by (simp add: toggleAllFuture_def Let_def toggleFuture_loop_expand)
qed

lemma raceColumn_in_unresolvedColumns:
  "race \<in> set races \<Longrightarrow> rr (race_round race) = None \<Longrightarrow>
     raceColumn (race_round race) \<in> unresolvedColumns races rr sr"
  by (auto simp: unresolvedColumns_def)

text \<open>
  C3, as the code has it. \<^verbatim>\<open>toggleAllFuture\<close> looks at the race columns only: when
  the race column of some race without a result is visible, it collapses every
  unresolved race column, every unresolved sprint column and the two projected columns,
  and returns true; otherwise it expands all of these and returns false. Whether a
  sprint column is visible plays no part in the decision.
\<close>

theorem toggleAllFuture_decided_by_race_columns:
  "toggleAllFuture tr races rr sr =
     (if \<exists>race \<in> set races. rr (race_round race) = None
           \<and> raceColumn (race_round race) \<notin> collapsedColumns tr
      then (tr\<lparr>collapsedColumns :=
                 collapsedColumns tr \<union> unresolvedColumns races rr sr
                   \<union> {''predicted-points'', ''predicted-standing''}\<rparr>, True)
      else (tr\<lparr>collapsedColumns :=
                 collapsedColumns tr - unresolvedColumns races rr sr
                   - {''predicted-points'', ''predicted-standing''}\<rparr>, False))"
  by (rule toggleAllFuture_sets)

text \<open>
  A season with round 1 run, round 2 a sprint weekend to come and round 3 to come; the
  race columns of rounds 1 and 2 and a gap column are collapsed. Round 3 is visible, so
  the toggle collapses; the columns of round 1 and the gap column stay as they are.
\<close>

theorem toggleAllFuture_decided_by_race_columns_witness:
  "toggleAllFuture \<lparr>collapsedColumns = {''race-1'', ''race-2'', ''gap-leader''}\<rparr>
     [\<lparr>race_round = ''1'', race_raceName = ''Australian Grand Prix'', race_Sprint = None\<rparr>,
      \<lparr>race_round = ''2'', race_raceName = ''Chinese Grand Prix'',
        race_Sprint = Some ''2025-03-22''\<rparr>,
      \<lparr>race_round = ''3'', race_raceName = ''Japanese Grand Prix'', race_Sprint = None\<rparr>]
     (app_raceResults example_app) Map.empty =
   (\<lparr>collapsedColumns =
       {''race-1'', ''race-2'', ''gap-leader'', ''sprint-2'', ''race-3'',
        ''predicted-points'', ''predicted-standing''}\<rparr>, True)"
proof -
  let ?races =
    "[\<lparr>race_round = ''1'', race_raceName = ''Australian Grand Prix'', race_Sprint = None\<rparr>,
      \<lparr>race_round = ''2'', race_raceName = ''Chinese Grand Prix'',
        race_Sprint = Some ''2025-03-22''\<rparr>,
      \<lparr>race_round = ''3'', race_raceName = ''Japanese Grand Prix'', race_Sprint = None\<rparr>]"
  have u: "unresolvedColumns ?races (app_raceResults example_app) Map.empty =
      {''race-2'', ''sprint-2'', ''race-3''}"
    by (auto simp: unresolvedColumns_def example_app_def raceColumn_def sprintColumn_def)
  have v: "\<exists>race \<in> set ?races. app_raceResults example_app (race_round race) = None
      \<and> raceColumn (race_round race)
          \<notin> collapsedColumns \<lparr>collapsedColumns = {''race-1'', ''race-2'', ''gap-leader''}\<rparr>"
    by (simp add: example_app_def raceColumn_def)
  have "toggleAllFuture \<lparr>collapsedColumns = {''race-1'', ''race-2'', ''gap-leader''}\<rparr>
      ?races (app_raceResults example_app) Map.empty =
    (\<lparr>collapsedColumns = {''race-1'', ''race-2'', ''gap-leader''}\<rparr>
       \<lparr>collapsedColumns :=
          collapsedColumns \<lparr>collapsedColumns = {''race-1'', ''race-2'', ''gap-leader''}\<rparr>
          \<union> unresolvedColumns ?races (app_raceResults example_app) Map.empty
          \<union> {''predicted-points'', ''predicted-standing''}\<rparr>, True)"
    using toggleAllFuture_decided_by_race_columns
      [of "\<lparr>collapsedColumns = {''race-1'', ''race-2'', ''gap-leader''}\<rparr>" ?races
        "app_raceResults example_app" Map.empty] v
    by (simp only: if_True)
  then show ?thesis
    unfolding u by auto
qed

text \<open>
  The claim as written fails: in a season whose only round is a sprint weekend to come,
  with the race column collapsed and the sprint column visible, an unresolved column is
  visible, yet the toggle expands and returns false.
\<close>

theorem toggleAllFuture_visible_sprint_counterexample:
  "sprintColumn ''2'' \<notin> {''race-2''}
   \<and> toggleAllFuture \<lparr>collapsedColumns = {''race-2''}\<rparr>
       [\<lparr>race_round = ''2'', race_raceName = ''Chinese Grand Prix'',
         race_Sprint = Some ''2025-03-22''\<rparr>]
       Map.empty Map.empty =
     (\<lparr>collapsedColumns = {}\<rparr>, False)"
  by (simp add: toggleAllFuture_def sprintColumn_def raceColumn_def)

text \<open>
  C4, as the code has it. Toggling twice gives back the original set exactly when the
  starting state is uniform on the toggled columns (the unresolved race and sprint
  columns and the two projected columns): either none of them is collapsed, or all of
  them are collapsed and some race has no result yet.
\<close>

theorem toggleAllFuture_twice_restores_iff:
  "(fst (toggleAllFuture (fst (toggleAllFuture tr races rr sr)) races rr sr) = tr)
   \<longleftrightarrow>
   (collapsedColumns tr
      \<inter> (unresolvedColumns races rr sr \<union> {''predicted-points'', ''predicted-standing''}) = {}
    \<or> (unresolvedColumns races rr sr \<union> {''predicted-points'', ''predicted-standing''}
          \<subseteq> collapsedColumns tr
        \<and> (\<exists>race \<in> set races. rr (race_round race) = None)))"
proof -
  define C where "C = collapsedColumns tr"
  define F where
    "F = unresolvedColumns races rr sr \<union> {''predicted-points'', ''predicted-standing''}"
  define V where "V = (\<lambda>X. \<exists>race \<in> set races. rr (race_round race) = None
      \<and> raceColumn (race_round race) \<notin> X)"
  define E where "E = (\<exists>race \<in> set races. rr (race_round race) = None)"
  have step: "\<And>t. toggleAllFuture t races rr sr =
      (if V (collapsedColumns t) then (t\<lparr>collapsedColumns := collapsedColumns t \<union> F\<rparr>, True)
       else (t\<lparr>collapsedColumns := collapsedColumns t - F\<rparr>, False))"
  proof -
    fix t
    have a: "\<And>X U P :: string set. X \<union> U \<union> P = X \<union> (U \<union> P)" by blast
    have b: "\<And>X U P :: string set. X - U - P = X - (U \<union> P)" by blast
    show "toggleAllFuture t races rr sr =
      (if V (collapsedColumns t) then (t\<lparr>collapsedColumns := collapsedColumns t \<union> F\<rparr>, True)
       else (t\<lparr>collapsedColumns := collapsedColumns t - F\<rparr>, False))"
      unfolding V_def F_def by (simp only: toggleAllFuture_sets a b)
  qed
  have inF: "\<And>race. race \<in> set races \<Longrightarrow> rr (race_round race) = None \<Longrightarrow>
      raceColumn (race_round race) \<in> F"
    unfolding F_def using raceColumn_in_unresolvedColumns by blast
  have V_after_collapse: "\<And>X. \<not> V (X \<union> F)"
    unfolding V_def using inF by blast
  have V_after_expand: "\<And>X. V (X - F) = E"
    unfolding V_def E_def using inF by blast
  have eq_iff: "\<And>X. (tr\<lparr>collapsedColumns := X\<rparr> = tr) = (X = C)"
    unfolding C_def by (cases tr) auto
  have twice: "fst (toggleAllFuture (fst (toggleAllFuture tr races rr sr)) races rr sr) =
      (if V C then tr\<lparr>collapsedColumns := (C \<union> F) - F\<rparr>
       else if E then tr\<lparr>collapsedColumns := (C - F) \<union> F\<rparr>
       else tr\<lparr>collapsedColumns := (C - F) - F\<rparr>)"
    by (simp add: step C_def V_after_collapse V_after_expand)
  have notV: "\<not> V C \<Longrightarrow> E \<Longrightarrow> C \<inter> F \<noteq> {}"
    unfolding V_def E_def using inF by blast
  have isV: "V C \<Longrightarrow> \<not> F \<subseteq> C"
    unfolding V_def using inF by blast
  have VE: "V C \<Longrightarrow> E"
    unfolding V_def E_def by blast
  have "(fst (toggleAllFuture (fst (toggleAllFuture tr races rr sr)) races rr sr) = tr)
      \<longleftrightarrow> (C \<inter> F = {} \<or> (F \<subseteq> C \<and> E))"
  proof (cases "V C")
    case True
    have "((C \<union> F) - F = C) = (C \<inter> F = {})" by blast
    with True isV show ?thesis by (simp add: twice eq_iff)
  next
    case False
    show ?thesis
    proof (cases E)
      case True
      have "((C - F) \<union> F = C) = (F \<subseteq> C)" by blast
      with True False notV show ?thesis by (simp add: twice eq_iff)
    next
      case nE: False
      have "((C - F) - F = C) = (C \<inter> F = {})" by blast
      with nE False show ?thesis by (simp add: twice eq_iff)
    qed
  qed
  then show ?thesis
    unfolding C_def F_def E_def .
qed

text \<open>
  Two uniform starting states on a season with rounds 2 (a sprint weekend) and 3 to
  come: only a gap column collapsed, and everything the toggle touches collapsed.
\<close>

theorem toggleAllFuture_twice_restores_iff_witness:
  "fst (toggleAllFuture
        (fst (toggleAllFuture \<lparr>collapsedColumns = {''gap-leader''}\<rparr>
           [\<lparr>race_round = ''2'', race_raceName = ''Chinese Grand Prix'',
              race_Sprint = Some ''2025-03-22''\<rparr>,
            \<lparr>race_round = ''3'', race_raceName = ''Japanese Grand Prix'', race_Sprint = None\<rparr>]
           Map.empty Map.empty))
        [\<lparr>race_round = ''2'', race_raceName = ''Chinese Grand Prix'',
           race_Sprint = Some ''2025-03-22''\<rparr>,
         \<lparr>race_round = ''3'', race_raceName = ''Japanese Grand Prix'', race_Sprint = None\<rparr>]
        Map.empty Map.empty) =
     \<lparr>collapsedColumns = {''gap-leader''}\<rparr>
   \<and> fst (toggleAllFuture
        (fst (toggleAllFuture
           \<lparr>collapsedColumns =
              {''race-2'', ''sprint-2'', ''race-3'', ''predicted-points'',
               ''predicted-standing''}\<rparr>
           [\<lparr>race_round = ''2'', race_raceName = ''Chinese Grand Prix'',
              race_Sprint = Some ''2025-03-22''\<rparr>,
            \<lparr>race_round = ''3'', race_raceName = ''Japanese Grand Prix'', race_Sprint = None\<rparr>]
           Map.empty Map.empty))
        [\<lparr>race_round = ''2'', race_raceName = ''Chinese Grand Prix'',
           race_Sprint = Some ''2025-03-22''\<rparr>,
         \<lparr>race_round = ''3'', race_raceName = ''Japanese Grand Prix'', race_Sprint = None\<rparr>]
        Map.empty Map.empty) =
     \<lparr>collapsedColumns =
        {''race-2'', ''sprint-2'', ''race-3'', ''predicted-points'', ''predicted-standing''}\<rparr>"
proof -
  let ?races =
    "[\<lparr>race_round = ''2'', race_raceName = ''Chinese Grand Prix'',
        race_Sprint = Some ''2025-03-22''\<rparr>,
      \<lparr>race_round = ''3'', race_raceName = ''Japanese Grand Prix'', race_Sprint = None\<rparr>]"
  have u: "unresolvedColumns ?races Map.empty Map.empty = {''race-2'', ''sprint-2'', ''race-3''}"
    by (auto simp: unresolvedColumns_def raceColumn_def sprintColumn_def)
  have none: "collapsedColumns \<lparr>collapsedColumns = {''gap-leader''}\<rparr>
      \<inter> (unresolvedColumns ?races Map.empty Map.empty
          \<union> {''predicted-points'', ''predicted-standing''}) = {}"
    unfolding u by simp
  have all: "unresolvedColumns ?races Map.empty Map.empty
        \<union> {''predicted-points'', ''predicted-standing''}
      \<subseteq> collapsedColumns
          \<lparr>collapsedColumns =
             {''race-2'', ''sprint-2'', ''race-3'', ''predicted-points'',
              ''predicted-standing''}\<rparr>
      \<and> (\<exists>race \<in> set ?races. (Map.empty :: results) (race_round race) = None)"
    unfolding u by auto
  have first: "fst (toggleAllFuture
        (fst (toggleAllFuture \<lparr>collapsedColumns = {''gap-leader''}\<rparr> ?races
           Map.empty Map.empty)) ?races Map.empty Map.empty) =
     \<lparr>collapsedColumns = {''gap-leader''}\<rparr>"
    using toggleAllFuture_twice_restores_iff
      [of "\<lparr>collapsedColumns = {''gap-leader''}\<rparr>" ?races Map.empty Map.empty] none
    by blast
  have second: "fst (toggleAllFuture
        (fst (toggleAllFuture
           \<lparr>collapsedColumns =
              {''race-2'', ''sprint-2'', ''race-3'', ''predicted-points'',
               ''predicted-standing''}\<rparr> ?races Map.empty Map.empty))
        ?races Map.empty Map.empty) =
     \<lparr>collapsedColumns =
        {''race-2'', ''sprint-2'', ''race-3'', ''predicted-points'', ''predicted-standing''}\<rparr>"
    using toggleAllFuture_twice_restores_iff
      [of "\<lparr>collapsedColumns =
              {''race-2'', ''sprint-2'', ''race-3'', ''predicted-points'',
               ''predicted-standing''}\<rparr>" ?races Map.empty Map.empty] all
    by blast
  show ?thesis using first second by (rule conjI)
qed

text \<open>
  The claim as written fails from a mixed state: with rounds 2 and 3 to come and only
  the race column of round 2 collapsed, the first call collapses both rounds and the
  projected columns, the second expands them all, and the set ends empty.
\<close>

theorem toggleAllFuture_twice_mixed_counterexample:
  "fst (toggleAllFuture
        (fst (toggleAllFuture \<lparr>collapsedColumns = {''race-2''}\<rparr>
           [\<lparr>race_round = ''2'', race_raceName = ''Chinese Grand Prix'', race_Sprint = None\<rparr>,
            \<lparr>race_round = ''3'', race_raceName = ''Japanese Grand Prix'', race_Sprint = None\<rparr>]
           Map.empty Map.empty))
        [\<lparr>race_round = ''2'', race_raceName = ''Chinese Grand Prix'', race_Sprint = None\<rparr>,
         \<lparr>race_round = ''3'', race_raceName = ''Japanese Grand Prix'', race_Sprint = None\<rparr>]
        Map.empty Map.empty) =
     \<lparr>collapsedColumns = {}\<rparr>
   \<and> \<lparr>collapsedColumns = {}\<rparr> \<noteq> \<lparr>collapsedColumns = {''race-2''}\<rparr>"
  by (auto simp: toggleAllFuture_def raceColumn_def sprintColumn_def Let_def)


section \<open>Column order\<close>

lemma buildColumns_loop_append:
  "buildColumns_loop columns races rr sr collapsed =
     columns @ chronologicalColumns collapsed races rr sr"
proof (induction races arbitrary: columns)
  case Nil
  show ?case by (simp add: chronologicalColumns_def)
next
  case (Cons race races)
  have "chronologicalColumns collapsed (race # races) rr sr =
      chronologicalColumns collapsed [race] rr sr @ chronologicalColumns collapsed races rr sr"
    by (simp add: chronologicalColumns_def)
  then show ?case
    by (simp add: Cons.IH Let_def) (simp add: chronologicalColumns_def)
qed

lemma insertSorted_partitioned:
  assumes "\<forall>v \<in> set vs. \<not> col_isCollapsed v" and "\<forall>c \<in> set cs. col_isCollapsed c"
  shows "insertSorted compareCollapsed x (vs @ cs) =
           (if col_isCollapsed x then vs @ x # cs else x # vs @ cs)"
  using assms
proof (induction vs)
  case Nil
  then show ?case
    by (cases cs) (auto simp: compareCollapsed_def)
next
  case (Cons v vs)
  then show ?case
    by (auto simp: compareCollapsed_def)
qed

lemma Array_sort_compareCollapsed:
  "Array_sort compareCollapsed xs =
     filter (\<lambda>c. \<not> col_isCollapsed c) xs @ filter col_isCollapsed xs"
proof (induction xs)
  case Nil
  show ?case by (simp add: Array_sort_def)
next
  case (Cons x xs)
  have "Array_sort compareCollapsed (x # xs) =
      insertSorted compareCollapsed x (Array_sort compareCollapsed xs)"
    by (simp add: Array_sort_def)
  also have "\<dots> = insertSorted compareCollapsed x
      (filter (\<lambda>c. \<not> col_isCollapsed c) xs @ filter col_isCollapsed xs)"
    by (simp add: Cons.IH)
  also have "\<dots> =
      (if col_isCollapsed x
       then filter (\<lambda>c. \<not> col_isCollapsed c) xs @ x # filter col_isCollapsed xs
       else x # filter (\<lambda>c. \<not> col_isCollapsed c) xs @ filter col_isCollapsed xs)"
    by (rule insertSorted_partitioned) simp_all
  finally show ?case by simp
qed

text \<open>
  C9. The ordered column list is the chronological list (the sprint column of a round
  before its race column), stably partitioned by collapsed state: the visible columns in
  their chronological order, then the collapsed columns in their chronological order. A
  column counts as collapsed exactly when its identifier is in the collapsed set.
\<close>

theorem getOrderedColumns_stable_partition:
  "getOrderedColumns tr races rr sr =
     filter (\<lambda>c. \<not> col_isCollapsed c) (chronologicalColumns (collapsedColumns tr) races rr sr)
     @ filter col_isCollapsed (chronologicalColumns (collapsedColumns tr) races rr sr)
   \<and> (\<forall>c \<in> set (chronologicalColumns (collapsedColumns tr) races rr sr).
        col_isCollapsed c =
          ((if col_type c = ''sprint'' then sprintColumn (col_round c)
            else raceColumn (col_round c)) \<in> collapsedColumns tr))"
proof
  show "getOrderedColumns tr races rr sr =
     filter (\<lambda>c. \<not> col_isCollapsed c) (chronologicalColumns (collapsedColumns tr) races rr sr)
     @ filter col_isCollapsed (chronologicalColumns (collapsedColumns tr) races rr sr)"
    by (simp add: getOrderedColumns_def buildColumns_loop_append Array_sort_compareCollapsed)
  show "\<forall>c \<in> set (chronologicalColumns (collapsedColumns tr) races rr sr).
        col_isCollapsed c =
          ((if col_type c = ''sprint'' then sprintColumn (col_round c)
            else raceColumn (col_round c)) \<in> collapsedColumns tr)"
    by (auto simp: chronologicalColumns_def)
qed

text \<open>
  Rounds 1, 2 and 3, round 2 a sprint weekend, with only the race column of round 2
  collapsed: the race columns come out in the order 1, 3, 2, and the sprint column of
  round 2 keeps its place between the races of rounds 1 and 3.
\<close>

theorem getOrderedColumns_stable_partition_witness:
  "map (\<lambda>c. (col_type c, col_round c))
     (getOrderedColumns \<lparr>collapsedColumns = {''race-2''}\<rparr>
        [\<lparr>race_round = ''1'', race_raceName = ''Australian Grand Prix'', race_Sprint = None\<rparr>,
         \<lparr>race_round = ''2'', race_raceName = ''Chinese Grand Prix'',
           race_Sprint = Some ''2025-03-22''\<rparr>,
         \<lparr>race_round = ''3'', race_raceName = ''Japanese Grand Prix'', race_Sprint = None\<rparr>]
        (app_raceResults example_app) Map.empty) =
     [(''race'', ''1''), (''sprint'', ''2''), (''race'', ''3''), (''race'', ''2'')]
   \<and> map col_round
     (filter (\<lambda>c. col_type c = ''race'')
       (getOrderedColumns \<lparr>collapsedColumns = {''race-2''}\<rparr>
          [\<lparr>race_round = ''1'', race_raceName = ''Australian Grand Prix'', race_Sprint = None\<rparr>,
           \<lparr>race_round = ''2'', race_raceName = ''Chinese Grand Prix'',
             race_Sprint = Some ''2025-03-22''\<rparr>,
           \<lparr>race_round = ''3'', race_raceName = ''Japanese Grand Prix'', race_Sprint = None\<rparr>]
          (app_raceResults example_app) Map.empty)) =
     [''1'', ''3'', ''2'']"
  using getOrderedColumns_stable_partition
    [of "\<lparr>collapsedColumns = {''race-2''}\<rparr>"
      "[\<lparr>race_round = ''1'', race_raceName = ''Australian Grand Prix'', race_Sprint = None\<rparr>,
        \<lparr>race_round = ''2'', race_raceName = ''Chinese Grand Prix'',
          race_Sprint = Some ''2025-03-22''\<rparr>,
        \<lparr>race_round = ''3'', race_raceName = ''Japanese Grand Prix'', race_Sprint = None\<rparr>]"
      "app_raceResults example_app" Map.empty]
  by (simp add: chronologicalColumns_def raceColumn_def sprintColumn_def)


section \<open>Writing predictions\<close>

lemma strict_equals_eq: "strict_equals a b \<Longrightarrow> a = b"
  by (induction a b rule: strict_equals.induct) auto

lemma strict_equals_Finite:
  "strict_equals (JNumber n) (JNumber (Finite p)) = (n = Finite p)"
  by (cases n) auto

lemma parseInt_zero_string: "parseInt (JString ''0'') = Finite 0"
  using parseInt_decimal_string [of 0] by (simp add: toDecimal.simps digitChar_def)

lemma toPos_cases: "toPos position = JNull \<or> toPos position = JNumber (parseInt position)"
  by (simp add: toPos_def)

lemma toPos_positive:
  assumes "parseInt position = Finite p" and "p > 0"
  shows "toPos position = JNumber (Finite p)"
proof -
  have "\<not> strict_equals position (JString ''0'')"
    using assms strict_equals_eq [of position "JString ''0''"] parseInt_zero_string by auto
  moreover have "\<not> strict_equals position (JNumber (Finite 0))"
    using assms strict_equals_eq [of position "JNumber (Finite 0)"] parseInt_Finite [of 0] by auto
  ultimately show ?thesis using assms by (simp add: toPos_def)
qed

lemma updatePrediction_loop_find:
  "updatePrediction_loop pm es obj driverId rnd (JNumber (Finite p)) =
     (case find (\<lambda>(other, v). other \<noteq> driverId \<and> parseInt v = Finite p) es of
        None \<Rightarrow> pm
      | Some (other, v) \<Rightarrow>
          PredictionManager_updatePrediction pm other rnd (getProperty obj driverId))"
proof (induction es)
  case Nil
  show ?case by simp
next
  case (Cons e es)
  obtain other v where e: "e = (other, v)" by (cases e) auto
  show ?case
    by (cases "other \<noteq> driverId \<and> parseInt v = Finite p")
      (auto simp: e Cons.IH strict_equals_Finite Let_def)
qed

lemma updateSprintPrediction_loop_find:
  "updateSprintPrediction_loop pm es obj driverId rnd (JNumber (Finite p)) =
     (case find (\<lambda>(other, v). other \<noteq> driverId \<and> parseInt v = Finite p) es of
        None \<Rightarrow> pm
      | Some (other, v) \<Rightarrow>
          PredictionManager_updateSprintPrediction pm other rnd (getProperty obj driverId))"
proof (induction es)
  case Nil
  show ?case by simp
next
  case (Cons e es)
  obtain other v where e: "e = (other, v)" by (cases e) auto
  show ?case
    by (cases "other \<noteq> driverId \<and> parseInt v = Finite p")
      (auto simp: e Cons.IH strict_equals_Finite Let_def)
qed

lemma updatePrediction_effect:
  "updatePrediction app driverId rnd position =
     app\<lparr>app_predictionManager :=
           (app_predictionManager app)
             \<lparr>userPredictions :=
                (userPredictions (app_predictionManager app))
                  (rnd \<mapsto> writtenObject
                     (case userPredictions (app_predictionManager app) rnd of
                        None \<Rightarrow> [] | Some obj \<Rightarrow> obj)
                     driverId (toPos position))\<rparr>\<rparr>"
proof -
  define pm where "pm = app_predictionManager app"
  define obj where "obj = (case userPredictions pm rnd of None \<Rightarrow> [] | Some obj \<Rightarrow> obj)"
  consider (null) "toPos position = JNull"
    | (nan) "toPos position = JNumber NaN"
    | (nonpos) p where "toPos position = JNumber (Finite p)" "\<not> p > 0"
    | (pos) p where "toPos position = JNumber (Finite p)" "p > 0"
    using toPos_cases [of position] by (cases "parseInt position") auto
  then show ?thesis
  proof cases
    case null
    then show ?thesis
      by (simp add: updatePrediction_def writtenObject_def PredictionManager_updatePrediction_def
          Let_def)
  next
    case nan
    then show ?thesis
      by (simp add: updatePrediction_def writtenObject_def PredictionManager_updatePrediction_def
          Let_def)
  next
    case nonpos
    then show ?thesis
      by (simp add: updatePrediction_def writtenObject_def PredictionManager_updatePrediction_def
          Let_def)
  next
    case pos
    show ?thesis
    proof (cases "find (\<lambda>(other, v). other \<noteq> driverId \<and> parseInt v = Finite p) obj")
      case None
      with pos show ?thesis
        unfolding obj_def pm_def
        by (simp add: updatePrediction_def writtenObject_def updatePrediction_loop_find
            PredictionManager_updatePrediction_def Let_def)
    next
      case (Some a)
      then obtain other v where a: "a = (other, v)" by (cases a) auto
      from Some have "obj \<noteq> []" by auto
      then have stored: "userPredictions pm rnd = Some obj"
        unfolding obj_def by (auto split: option.splits)
      with pos Some a show ?thesis
        unfolding pm_def
        by (simp add: updatePrediction_def writtenObject_def updatePrediction_loop_find
            PredictionManager_updatePrediction_def Let_def)
    qed
  qed
qed

lemma updateSprintPrediction_effect:
  "updateSprintPrediction app driverId rnd position =
     app\<lparr>app_predictionManager :=
           (app_predictionManager app)
             \<lparr>sprintPredictions :=
                (sprintPredictions (app_predictionManager app))
                  (rnd \<mapsto> writtenObject
                     (case sprintPredictions (app_predictionManager app) rnd of
                        None \<Rightarrow> [] | Some obj \<Rightarrow> obj)
                     driverId (toPos position))\<rparr>\<rparr>"
proof -
  define pm where "pm = app_predictionManager app"
  define obj where "obj = (case sprintPredictions pm rnd of None \<Rightarrow> [] | Some obj \<Rightarrow> obj)"
  consider (null) "toPos position = JNull"
    | (nan) "toPos position = JNumber NaN"
    | (nonpos) p where "toPos position = JNumber (Finite p)" "\<not> p > 0"
    | (pos) p where "toPos position = JNumber (Finite p)" "p > 0"
    using toPos_cases [of position] by (cases "parseInt position") auto
  then show ?thesis
  proof cases
    case null
    then show ?thesis
      by (simp add: updateSprintPrediction_def writtenObject_def
          PredictionManager_updateSprintPrediction_def Let_def)
  next
    case nan
    then show ?thesis
      by (simp add: updateSprintPrediction_def writtenObject_def
          PredictionManager_updateSprintPrediction_def Let_def)
  next
    case nonpos
    then show ?thesis
      by (simp add: updateSprintPrediction_def writtenObject_def
          PredictionManager_updateSprintPrediction_def Let_def)
  next
    case pos
    show ?thesis
    proof (cases "find (\<lambda>(other, v). other \<noteq> driverId \<and> parseInt v = Finite p) obj")
      case None
      with pos show ?thesis
        unfolding obj_def pm_def
        by (simp add: updateSprintPrediction_def writtenObject_def
            updateSprintPrediction_loop_find PredictionManager_updateSprintPrediction_def Let_def)
    next
      case (Some a)
      then obtain other v where a: "a = (other, v)" by (cases a) auto
      from Some have "obj \<noteq> []" by auto
      then have stored: "sprintPredictions pm rnd = Some obj"
        unfolding obj_def by (auto split: option.splits)
      with pos Some a show ?thesis
        unfolding pm_def
        by (simp add: updateSprintPrediction_def writtenObject_def
            updateSprintPrediction_loop_find PredictionManager_updateSprintPrediction_def Let_def)
    qed
  qed
qed

subsection \<open>The object of the round after a write\<close>

lemma concretePosition_written:
  "concretePosition (JNumber (Finite p)) = (if p > 0 then Some p else None)"
  by (simp add: concretePosition_def parseInt_Finite)

lemma concretePosition_JNull: "concretePosition JNull = None"
  by (simp add: concretePosition_def parseInt_JNull)

lemma concretePosition_JUndefined: "concretePosition JUndefined = None"
  by (simp add: concretePosition_def parseInt_JUndefined)

lemma concretePosition_NaN: "concretePosition (JNumber NaN) = None"
  by (simp add: concretePosition_def parseInt_NaN)

lemma concretePosition_Some_iff:
  "concretePosition v = Some p \<longleftrightarrow> parseInt v = Finite p \<and> p > 0"
  by (auto simp: concretePosition_def split: jsnumber.splits)

lemma oneToOne_map:
  "oneToOne obj \<longleftrightarrow>
     distinct (map fst obj)
     \<and> (\<forall>d1 d2 v1 v2. map_of obj d1 = Some v1 \<longrightarrow> map_of obj d2 = Some v2 \<longrightarrow>
          concretePosition v1 \<noteq> None \<longrightarrow> concretePosition v1 = concretePosition v2 \<longrightarrow> d1 = d2)"
proof (cases "distinct (map fst obj)")
  case True
  then have mem: "\<And>d v. (map_of obj d = Some v) = ((d, v) \<in> set obj)"
    by simp
  show ?thesis
    unfolding oneToOne_def mem using True by blast
next
  case False
  then show ?thesis by (simp add: oneToOne_def)
qed

lemma getProperty_concrete:
  "concretePosition (getProperty obj d) = Some p \<Longrightarrow>
     \<exists>v. map_of obj d = Some v \<and> concretePosition v = Some p"
  by (auto simp: getProperty_def concretePosition_JUndefined split: option.splits)

lemma find_holder_Some:
  assumes "find (\<lambda>(other, v). other \<noteq> driverId \<and> parseInt v = Finite p) obj = Some (b, v)"
    and "distinct (map fst obj)"
  shows "b \<noteq> driverId \<and> parseInt v = Finite p \<and> map_of obj b = Some v"
proof -
  from assms(1) obtain i where i: "i < length obj" "obj ! i = (b, v)"
      "b \<noteq> driverId \<and> parseInt v = Finite p"
    unfolding find_Some_iff by auto
  from i(1,2) have "(b, v) \<in> set obj" by (metis nth_mem)
  with assms(2) i(3) show ?thesis by simp
qed

lemma find_holder_None:
  assumes "find (\<lambda>(other, v). other \<noteq> driverId \<and> parseInt v = Finite p) obj = None"
    and "map_of obj x = Some v" and "x \<noteq> driverId"
  shows "parseInt v \<noteq> Finite p"
proof -
  from assms(2) have "(x, v) \<in> set obj" by (rule map_of_SomeD)
  with assms(1,3) show ?thesis by (auto simp: find_None_iff)
qed

lemma uniq_after_plain_write:
  fixes m :: "string \<rightharpoonup> jsval"
  assumes "\<And>d1 d2 v1 v2. m d1 = Some v1 \<Longrightarrow> m d2 = Some v2 \<Longrightarrow>
      concretePosition v1 \<noteq> None \<Longrightarrow> concretePosition v1 = concretePosition v2 \<Longrightarrow> d1 = d2"
    and "concretePosition pos = None"
    and "(m(driverId \<mapsto> pos)) d1 = Some v1"
    and "(m(driverId \<mapsto> pos)) d2 = Some v2"
    and "concretePosition v1 \<noteq> None"
    and "concretePosition v1 = concretePosition v2"
  shows "d1 = d2"
  using assms by (metis fun_upd_other fun_upd_same option.sel)

lemma uniq_after_free_write:
  fixes m :: "string \<rightharpoonup> jsval"
  assumes "\<And>d1 d2 v1 v2. m d1 = Some v1 \<Longrightarrow> m d2 = Some v2 \<Longrightarrow>
      concretePosition v1 \<noteq> None \<Longrightarrow> concretePosition v1 = concretePosition v2 \<Longrightarrow> d1 = d2"
    and "concretePosition pos = Some p"
    and "\<And>x v. m x = Some v \<Longrightarrow> x \<noteq> driverId \<Longrightarrow> concretePosition v \<noteq> Some p"
    and "(m(driverId \<mapsto> pos)) d1 = Some v1"
    and "(m(driverId \<mapsto> pos)) d2 = Some v2"
    and "concretePosition v1 \<noteq> None"
    and "concretePosition v1 = concretePosition v2"
  shows "d1 = d2"
  using assms by (metis map_upd_Some_unfold)

lemma uniq_after_swap:
  fixes m :: "string \<rightharpoonup> jsval"
  assumes uniq: "\<And>d1 d2 v1 v2. m d1 = Some v1 \<Longrightarrow> m d2 = Some v2 \<Longrightarrow>
      concretePosition v1 \<noteq> None \<Longrightarrow> concretePosition v1 = concretePosition v2 \<Longrightarrow> d1 = d2"
    and cp: "concretePosition pos = Some p"
    and h: "b \<noteq> driverId" "m b = Some v" "concretePosition v = Some p"
    and old: "\<And>q. concretePosition oldv = Some q \<Longrightarrow>
        \<exists>u. m driverId = Some u \<and> concretePosition u = Some q"
    and a1: "(m(b \<mapsto> oldv, driverId \<mapsto> pos)) d1 = Some v1"
    and a2: "(m(b \<mapsto> oldv, driverId \<mapsto> pos)) d2 = Some v2"
    and c1: "concretePosition v1 \<noteq> None"
    and c2: "concretePosition v1 = concretePosition v2"
  shows "d1 = d2"
proof -
  have holder: "\<And>x u. m x = Some u \<Longrightarrow> concretePosition u = Some p \<Longrightarrow> x = b"
    using uniq [OF _ h(2)] h(3) by auto
  have writer: "\<And>x u q. m x = Some u \<Longrightarrow> concretePosition u = Some q \<Longrightarrow>
      concretePosition oldv = Some q \<Longrightarrow> x = driverId"
  proof -
    fix x u q
    assume x: "m x = Some u" "concretePosition u = Some q" "concretePosition oldv = Some q"
    from old [OF x(3)] obtain w where w: "m driverId = Some w" "concretePosition w = Some q"
      by blast
    show "x = driverId" using uniq [OF x(1) w(1)] x(2) w(2) by simp
  qed
  have oldp: "concretePosition oldv \<noteq> Some p"
  proof
    assume "concretePosition oldv = Some p"
    from old [OF this] obtain w where "m driverId = Some w" "concretePosition w = Some p"
      by blast
    then have "driverId = b" by (rule holder)
    with h(1) show False by simp
  qed
  from c1 obtain q where q: "concretePosition v1 = Some q" by auto
  with c2 have q2: "concretePosition v2 = Some q" by simp
  consider (w1) "d1 = driverId" | (b1) "d1 = b" "d1 \<noteq> driverId" | (x1) "d1 \<noteq> b" "d1 \<noteq> driverId"
    by blast
  then show ?thesis
  proof cases
    case w1
    then have "v1 = pos" using a1 by simp
    then have qp: "q = p" using q cp by simp
    show ?thesis
    proof (cases "d2 = driverId")
      case True
      with w1 show ?thesis by simp
    next
      case False
      show ?thesis
      proof (cases "d2 = b")
        case True
        then have "v2 = oldv" using a2 False by simp
        with q2 qp oldp show ?thesis by simp
      next
        case nb: False
        then have "m d2 = Some v2" using a2 False by simp
        then have "d2 = b" using q2 qp holder by blast
        with nb show ?thesis by simp
      qed
    qed
  next
    case b1
    then have v1: "v1 = oldv" using a1 by simp
    show ?thesis
    proof (cases "d2 = driverId")
      case True
      then have "v2 = pos" using a2 by simp
      then have "q = p" using q2 cp by simp
      with v1 q oldp show ?thesis by simp
    next
      case False
      show ?thesis
      proof (cases "d2 = b")
        case True
        with b1 show ?thesis by simp
      next
        case nb: False
        then have "m d2 = Some v2" using a2 False by simp
        then have "d2 = driverId" using writer q2 q v1 by blast
        with False show ?thesis by simp
      qed
    qed
  next
    case x1
    then have m1: "m d1 = Some v1" using a1 by simp
    show ?thesis
    proof (cases "d2 = driverId")
      case True
      then have "v2 = pos" using a2 by simp
      then have "q = p" using q2 cp by simp
      then have "d1 = b" using holder m1 q by blast
      with x1 show ?thesis by simp
    next
      case False
      show ?thesis
      proof (cases "d2 = b")
        case True
        then have "v2 = oldv" using a2 False by simp
        then have "d1 = driverId" using writer m1 q q2 by blast
        with x1 show ?thesis by simp
      next
        case nb: False
        then have "m d2 = Some v2" using a2 False by simp
        then show ?thesis using uniq [OF m1 _ c1 c2] by simp
      qed
    qed
  qed
qed

lemma writtenObject_cases:
  assumes "pos = JNull \<or> (\<exists>n. pos = JNumber n)"
  obtains (plain) "concretePosition pos = None"
      "writtenObject obj driverId pos = AList.update driverId pos obj"
    | (free) p where "pos = JNumber (Finite p)" "p > 0"
      "find (\<lambda>(other, v). other \<noteq> driverId \<and> parseInt v = Finite p) obj = None"
      "writtenObject obj driverId pos = AList.update driverId pos obj"
    | (swap) p b v where "pos = JNumber (Finite p)" "p > 0"
      "find (\<lambda>(other, v). other \<noteq> driverId \<and> parseInt v = Finite p) obj = Some (b, v)"
      "writtenObject obj driverId pos =
         AList.update driverId pos (AList.update b (getProperty obj driverId) obj)"
proof -
  from assms consider "pos = JNull" | "pos = JNumber NaN" | p where "pos = JNumber (Finite p)"
    by (metis jsnumber.exhaust)
  then show ?thesis
  proof cases
    case 1
    then show ?thesis using plain by (simp add: writtenObject_def concretePosition_JNull)
  next
    case 2
    then show ?thesis using plain by (simp add: writtenObject_def concretePosition_NaN)
  next
    case (3 p)
    show ?thesis
    proof (cases "p > 0")
      case False
      with 3 show ?thesis using plain
        by (simp add: writtenObject_def concretePosition_written)
    next
      case True
      show ?thesis
      proof (cases "find (\<lambda>(other, v). other \<noteq> driverId \<and> parseInt v = Finite p) obj")
        case None
        with 3 True show ?thesis using free by (simp add: writtenObject_def)
      next
        case (Some a)
        then obtain b v where "a = (b, v)" by (cases a) auto
        with Some 3 True show ?thesis using swap by (simp add: writtenObject_def)
      qed
    qed
  qed
qed

lemma oneToOne_writtenObject:
  assumes inv: "oneToOne obj"
    and pos: "pos = JNull \<or> (\<exists>n. pos = JNumber n)"
  shows "oneToOne (writtenObject obj driverId pos)"
proof -
  from inv have dist: "distinct (map fst obj)" by (simp add: oneToOne_def)
  from inv have uniq: "\<And>d1 d2 v1 v2. map_of obj d1 = Some v1 \<Longrightarrow> map_of obj d2 = Some v2 \<Longrightarrow>
      concretePosition v1 \<noteq> None \<Longrightarrow> concretePosition v1 = concretePosition v2 \<Longrightarrow> d1 = d2"
    unfolding oneToOne_map by blast
  have m1: "map_of (AList.update driverId pos obj) = (map_of obj)(driverId \<mapsto> pos)"
    by (rule update_conv')
  from pos show ?thesis
  proof (cases rule: writtenObject_cases [where obj = obj and driverId = driverId])
    case plain
    show ?thesis
      unfolding plain(2) oneToOne_map m1
    proof (intro conjI allI impI)
      show "distinct (map fst (AList.update driverId pos obj))"
        using dist by (simp add: distinct_update)
    next
      fix d1 d2 v1 v2
      assume a1: "((map_of obj)(driverId \<mapsto> pos)) d1 = Some v1"
        and a2: "((map_of obj)(driverId \<mapsto> pos)) d2 = Some v2"
        and c1: "concretePosition v1 \<noteq> None"
        and c2: "concretePosition v1 = concretePosition v2"
      show "d1 = d2"
        by (rule uniq_after_plain_write [where m = "map_of obj", OF uniq plain(1) a1 a2 c1 c2])
    qed
  next
    case (free p)
    have cp: "concretePosition pos = Some p"
      using free by (simp add: concretePosition_written)
    have others: "\<And>x v. map_of obj x = Some v \<Longrightarrow> x \<noteq> driverId \<Longrightarrow>
        concretePosition v \<noteq> Some p"
      using find_holder_None [OF free(3)] by (auto simp: concretePosition_Some_iff)
    show ?thesis
      unfolding free(4) oneToOne_map m1
    proof (intro conjI allI impI)
      show "distinct (map fst (AList.update driverId pos obj))"
        using dist by (simp add: distinct_update)
    next
      fix d1 d2 v1 v2
      assume a1: "((map_of obj)(driverId \<mapsto> pos)) d1 = Some v1"
        and a2: "((map_of obj)(driverId \<mapsto> pos)) d2 = Some v2"
        and c1: "concretePosition v1 \<noteq> None"
        and c2: "concretePosition v1 = concretePosition v2"
      show "d1 = d2"
        by (rule uniq_after_free_write
            [where m = "map_of obj", OF uniq cp others a1 a2 c1 c2])
    qed
  next
    case (swap p b v)
    have m2: "map_of (AList.update driverId pos (AList.update b (getProperty obj driverId) obj)) =
        (map_of obj)(b \<mapsto> getProperty obj driverId, driverId \<mapsto> pos)"
      by (simp add: update_conv')
    have cp: "concretePosition pos = Some p"
      using swap by (simp add: concretePosition_written)
    have h: "b \<noteq> driverId" "map_of obj b = Some v" "concretePosition v = Some p"
      using find_holder_Some [OF swap(3) dist] swap(2) by (auto simp: concretePosition_Some_iff)
    have old: "\<And>q. concretePosition (getProperty obj driverId) = Some q \<Longrightarrow>
        \<exists>u. map_of obj driverId = Some u \<and> concretePosition u = Some q"
      by (rule getProperty_concrete)
    show ?thesis
      unfolding swap(4) oneToOne_map m2
    proof (intro conjI allI impI)
      show "distinct (map fst
          (AList.update driverId pos (AList.update b (getProperty obj driverId) obj)))"
        using dist by (simp add: distinct_update)
    next
      fix d1 d2 v1 v2
      assume a1:
        "((map_of obj)(b \<mapsto> getProperty obj driverId, driverId \<mapsto> pos)) d1 = Some v1"
        and a2:
        "((map_of obj)(b \<mapsto> getProperty obj driverId, driverId \<mapsto> pos)) d2 = Some v2"
        and c1: "concretePosition v1 \<noteq> None"
        and c2: "concretePosition v1 = concretePosition v2"
      show "d1 = d2"
        by (rule uniq_after_swap
            [where m = "map_of obj", OF uniq cp h(1) h(2) h(3) old a1 a2 c1 c2])
    qed
  qed
qed

lemma storedEntry_upd:
  "storedEntry (preds(rnd \<mapsto> obj)) r d = (if r = rnd then map_of obj d else storedEntry preds r d)"
  by (simp add: storedEntry_def)

lemma storedEntry_object:
  "map_of (case preds rnd of None \<Rightarrow> [] | Some obj \<Rightarrow> obj) d = storedEntry preds rnd d"
  by (simp add: storedEntry_def split: option.splits)

lemma getProperty_object:
  "getProperty (case preds rnd of None \<Rightarrow> [] | Some obj \<Rightarrow> obj) d =
     (case storedEntry preds rnd d of None \<Rightarrow> JUndefined | Some old \<Rightarrow> old)"
  by (simp add: storedEntry_def getProperty_def split: option.splits)

lemma firstOtherHolder_object:
  "map_option fst (find (\<lambda>(other, v). other \<noteq> driverId \<and> parseInt v = Finite p)
       (case preds rnd of None \<Rightarrow> [] | Some obj \<Rightarrow> obj)) =
     firstOtherHolder preds rnd driverId p"
  by (simp add: firstOtherHolder_def split: option.splits)

lemma map_of_writtenObject:
  assumes "pos = JNull \<or> (\<exists>n. pos = JNumber n)"
  shows "map_of (writtenObject obj driverId pos) =
     (case (case pos of JNumber (Finite p) \<Rightarrow>
              (if p > 0
               then map_option fst
                      (find (\<lambda>(other, v). other \<noteq> driverId \<and> parseInt v = Finite p) obj)
               else None)
            | _ \<Rightarrow> None) of
        None \<Rightarrow> (map_of obj)(driverId \<mapsto> pos)
      | Some b \<Rightarrow> (map_of obj)(b \<mapsto> getProperty obj driverId, driverId \<mapsto> pos))"
  using assms
proof (cases rule: writtenObject_cases [where obj = obj and driverId = driverId])
  case plain
  from plain(1) have "(case pos of JNumber (Finite p) \<Rightarrow>
              (if p > 0
               then map_option fst
                      (find (\<lambda>(other, v). other \<noteq> driverId \<and> parseInt v = Finite p) obj)
               else None)
            | _ \<Rightarrow> None) = None"
    by (auto simp: concretePosition_written split: jsval.splits jsnumber.splits)
  then show ?thesis by (simp add: plain(2) update_conv')
next
  case (free p)
  then show ?thesis by (simp add: update_conv')
next
  case (swap p b v)
  then show ?thesis by (simp add: update_conv')
qed

lemma toPos_holder:
  "(case toPos position of
      JNumber (Finite p) \<Rightarrow> (if p > 0 then F p else None)
    | _ \<Rightarrow> None) =
   (case parseInt position of NaN \<Rightarrow> None | Finite p \<Rightarrow> (if p > 0 then F p else None))"
proof (cases "toPos position = JNull")
  case True
  then have "strict_equals position (JString ''0'')
      \<or> strict_equals position (JNumber (Finite 0))"
    by (auto simp: toPos_def split: if_splits)
  then have "position = JString ''0'' \<or> position = JNumber (Finite 0)"
    using strict_equals_eq by blast
  then have "parseInt position = Finite 0"
    using parseInt_zero_string parseInt_Finite [of 0] by auto
  with True show ?thesis by simp
next
  case False
  then have "toPos position = JNumber (parseInt position)"
    using toPos_cases [of position] by simp
  then show ?thesis by (simp split: jsnumber.splits)
qed

lemma toPos_shape: "toPos position = JNull \<or> (\<exists>n. toPos position = JNumber n)"
  using toPos_cases [of position] by auto

lemma written_entries:
  "map_of (writtenObject (case preds rnd of None \<Rightarrow> [] | Some obj \<Rightarrow> obj) driverId
       (toPos position)) x =
     (if x = driverId then Some (toPos position)
      else if (case parseInt position of
                 NaN \<Rightarrow> None
               | Finite p \<Rightarrow> (if p > 0 then firstOtherHolder preds rnd driverId p else None))
              = Some x
      then Some (case storedEntry preds rnd driverId of None \<Rightarrow> JUndefined | Some old \<Rightarrow> old)
      else storedEntry preds rnd x)"
proof -
  define obj where "obj = (case preds rnd of None \<Rightarrow> [] | Some obj \<Rightarrow> obj)"
  define target where "target =
    (case parseInt position of
       NaN \<Rightarrow> None
     | Finite p \<Rightarrow> (if p > 0 then firstOtherHolder preds rnd driverId p else None))"
  have t: "(case toPos position of
        JNumber (Finite p) \<Rightarrow>
          (if p > 0
           then map_option fst
                  (find (\<lambda>(other, v). other \<noteq> driverId \<and> parseInt v = Finite p) obj)
           else None)
      | _ \<Rightarrow> None) = target"
    unfolding target_def obj_def toPos_holder firstOtherHolder_object ..
  have m: "map_of (writtenObject obj driverId (toPos position)) =
      (case target of
         None \<Rightarrow> (map_of obj)(driverId \<mapsto> toPos position)
       | Some b \<Rightarrow> (map_of obj)(b \<mapsto> getProperty obj driverId, driverId \<mapsto> toPos position))"
    using map_of_writtenObject [OF toPos_shape, of obj driverId position] t by simp
  have e: "\<And>d. map_of obj d = storedEntry preds rnd d"
    unfolding obj_def by (rule storedEntry_object)
  have g: "getProperty obj driverId =
      (case storedEntry preds rnd driverId of None \<Rightarrow> JUndefined | Some old \<Rightarrow> old)"
    unfolding obj_def by (rule getProperty_object)
  show ?thesis
    unfolding obj_def [symmetric] target_def [symmetric] m
    by (cases target) (simp_all add: e g)
qed

lemma updatePrediction_entries:
  "storedEntry (userPredictions (app_predictionManager
       (updatePrediction app driverId rnd position))) r x =
     (if r \<noteq> rnd then storedEntry (userPredictions (app_predictionManager app)) r x
      else if x = driverId then Some (toPos position)
      else if (case parseInt position of
                 NaN \<Rightarrow> None
               | Finite p \<Rightarrow>
                   (if p > 0
                    then firstOtherHolder (userPredictions (app_predictionManager app)) rnd
                           driverId p
                    else None))
              = Some x
      then Some (case storedEntry (userPredictions (app_predictionManager app)) rnd driverId of
                   None \<Rightarrow> JUndefined | Some old \<Rightarrow> old)
      else storedEntry (userPredictions (app_predictionManager app)) rnd x)"
  by (simp add: updatePrediction_effect storedEntry_upd written_entries)

lemma updateSprintPrediction_entries:
  "storedEntry (sprintPredictions (app_predictionManager
       (updateSprintPrediction app driverId rnd position))) r x =
     (if r \<noteq> rnd then storedEntry (sprintPredictions (app_predictionManager app)) r x
      else if x = driverId then Some (toPos position)
      else if (case parseInt position of
                 NaN \<Rightarrow> None
               | Finite p \<Rightarrow>
                   (if p > 0
                    then firstOtherHolder (sprintPredictions (app_predictionManager app)) rnd
                           driverId p
                    else None))
              = Some x
      then Some (case storedEntry (sprintPredictions (app_predictionManager app)) rnd driverId of
                   None \<Rightarrow> JUndefined | Some old \<Rightarrow> old)
      else storedEntry (sprintPredictions (app_predictionManager app)) rnd x)"
  by (simp add: updateSprintPrediction_effect storedEntry_upd written_entries)

lemma firstOtherHolder_other:
  "firstOtherHolder preds rnd driverId p = Some B \<Longrightarrow> B \<noteq> driverId"
  by (auto simp: firstOtherHolder_def find_Some_iff split: option.splits)

lemma firstOtherHolder_unique:
  assumes inv: "storeOneToOne preds rnd"
    and B: "B \<noteq> driverId" "storedEntry preds rnd B = Some vB" "parseInt vB = Finite p" "p > 0"
  shows "firstOtherHolder preds rnd driverId p = Some B"
proof -
  from B(2) obtain obj where obj: "preds rnd = Some obj" "map_of obj B = Some vB"
    by (auto simp: storedEntry_def split: option.splits)
  from inv obj(1) have one: "oneToOne obj" by (simp add: storeOneToOne_def)
  then have dist: "distinct (map fst obj)" by (simp add: oneToOne_def)
  from obj(2) have mem: "(B, vB) \<in> set obj" by (rule map_of_SomeD)
  let ?P = "\<lambda>(other, v). other \<noteq> driverId \<and> parseInt v = Finite p"
  from mem B(1,3) have "find ?P obj \<noteq> None"
    by (auto simp: find_None_iff)
  then obtain b v where f: "find ?P obj = Some (b, v)" by (cases "find ?P obj") auto
  from find_holder_Some [OF f dist] have h: "map_of obj b = Some v" "parseInt v = Finite p"
    by auto
  have "concretePosition v = Some p" "concretePosition vB = Some p"
    using h(2) B(3,4) by (simp_all add: concretePosition_Some_iff)
  with one h(1) obj(2) have "b = B"
    unfolding oneToOne_map by (metis option.distinct(1))
  with f obj(1) show ?thesis by (simp add: firstOtherHolder_def)
qed

lemma oneToOne_Nil: "oneToOne []"
  by (simp add: oneToOne_def)

lemma storeOneToOne_object:
  "storeOneToOne preds rnd \<Longrightarrow> oneToOne (case preds rnd of None \<Rightarrow> [] | Some obj \<Rightarrow> obj)"
  by (simp add: storeOneToOne_def oneToOne_Nil split: option.splits)

lemma storeOneToOne_upd:
  "storeOneToOne (preds(rnd \<mapsto> obj)) r =
     (if r = rnd then oneToOne obj else storeOneToOne preds r)"
  by (simp add: storeOneToOne_def)

lemma PredictionManager_updatePrediction_entries:
  "storedEntry (userPredictions (PredictionManager_updatePrediction pm driverId rnd pos)) r d =
     (if r = rnd \<and> d = driverId then Some pos else storedEntry (userPredictions pm) r d)"
  by (auto simp: PredictionManager_updatePrediction_def storedEntry_def update_conv'
      split: option.splits)

lemma PredictionManager_updateSprintPrediction_entries:
  "storedEntry (sprintPredictions (PredictionManager_updateSprintPrediction pm driverId rnd pos))
       r d =
     (if r = rnd \<and> d = driverId then Some pos else storedEntry (sprintPredictions pm) r d)"
  by (auto simp: PredictionManager_updateSprintPrediction_def storedEntry_def update_conv'
      split: option.splits)


section \<open>Properties of a prediction write\<close>

text \<open>
  C5. A write of a position \<open>p > 0\<close> for a driver, when another driver \<open>B\<close> holds
  \<open>p\<close> in the same round and event kind, leaves the writer at \<open>p\<close> and \<open>B\<close> at the
  writer's previous stored value (\<^verbatim>\<open>null\<close> if that was stored, \<^verbatim>\<open>undefined\<close> if the
  writer had no entry), and changes no other entry: a single swap. \<open>B\<close> is the first
  other holder in the order of the object's entries, which is the only other holder when
  the store satisfies the one-to-one invariant. The same holds for sprint predictions.
\<close>

theorem updatePrediction_swaps_with_holder:
  assumes "parseInt position = Finite p" and "p > 0" and "B \<noteq> driverId"
  shows
    "(storedEntry (userPredictions (app_predictionManager app)) rnd B = Some vB
        \<and> parseInt vB = Finite p
        \<and> (firstOtherHolder (userPredictions (app_predictionManager app)) rnd driverId p = Some B
           \<or> storeOneToOne (userPredictions (app_predictionManager app)) rnd)
      \<longrightarrow>
        storedEntry (userPredictions (app_predictionManager
            (updatePrediction app driverId rnd position))) rnd driverId
          = Some (JNumber (Finite p))
      \<and> storedEntry (userPredictions (app_predictionManager
            (updatePrediction app driverId rnd position))) rnd B
          = Some (case storedEntry (userPredictions (app_predictionManager app)) rnd driverId of
                    None \<Rightarrow> JUndefined | Some old \<Rightarrow> old)
      \<and> (\<forall>d. d \<noteq> driverId \<and> d \<noteq> B \<longrightarrow>
            storedEntry (userPredictions (app_predictionManager
                (updatePrediction app driverId rnd position))) rnd d
              = storedEntry (userPredictions (app_predictionManager app)) rnd d))
   \<and> (storedEntry (sprintPredictions (app_predictionManager app)) rnd B = Some vB
        \<and> parseInt vB = Finite p
        \<and> (firstOtherHolder (sprintPredictions (app_predictionManager app)) rnd driverId p = Some B
           \<or> storeOneToOne (sprintPredictions (app_predictionManager app)) rnd)
      \<longrightarrow>
        storedEntry (sprintPredictions (app_predictionManager
            (updateSprintPrediction app driverId rnd position))) rnd driverId
          = Some (JNumber (Finite p))
      \<and> storedEntry (sprintPredictions (app_predictionManager
            (updateSprintPrediction app driverId rnd position))) rnd B
          = Some (case storedEntry (sprintPredictions (app_predictionManager app)) rnd driverId of
                    None \<Rightarrow> JUndefined | Some old \<Rightarrow> old)
      \<and> (\<forall>d. d \<noteq> driverId \<and> d \<noteq> B \<longrightarrow>
            storedEntry (sprintPredictions (app_predictionManager
                (updateSprintPrediction app driverId rnd position))) rnd d
              = storedEntry (sprintPredictions (app_predictionManager app)) rnd d))"
proof -
  let ?U = "userPredictions (app_predictionManager app)"
  let ?S = "sprintPredictions (app_predictionManager app)"
  have pos: "toPos position = JNumber (Finite p)"
    using assms(1,2) by (rule toPos_positive)
  have holder: "firstOtherHolder preds rnd driverId p = Some B"
    if "storedEntry preds rnd B = Some vB \<and> parseInt vB = Finite p
        \<and> (firstOtherHolder preds rnd driverId p = Some B \<or> storeOneToOne preds rnd)"
    for preds
    using that firstOtherHolder_unique [of preds rnd B driverId vB p] assms(2,3) by blast
  show ?thesis
  proof (rule conjI; rule impI)
    assume "storedEntry ?U rnd B = Some vB \<and> parseInt vB = Finite p
        \<and> (firstOtherHolder ?U rnd driverId p = Some B \<or> storeOneToOne ?U rnd)"
    then have fo: "firstOtherHolder ?U rnd driverId p = Some B" by (rule holder)
    show "storedEntry (userPredictions (app_predictionManager
            (updatePrediction app driverId rnd position))) rnd driverId
          = Some (JNumber (Finite p))
      \<and> storedEntry (userPredictions (app_predictionManager
            (updatePrediction app driverId rnd position))) rnd B
          = Some (case storedEntry ?U rnd driverId of None \<Rightarrow> JUndefined | Some old \<Rightarrow> old)
      \<and> (\<forall>d. d \<noteq> driverId \<and> d \<noteq> B \<longrightarrow>
            storedEntry (userPredictions (app_predictionManager
                (updatePrediction app driverId rnd position))) rnd d
              = storedEntry ?U rnd d)"
      using fo assms pos by (simp add: updatePrediction_entries)
  next
    assume "storedEntry ?S rnd B = Some vB \<and> parseInt vB = Finite p
        \<and> (firstOtherHolder ?S rnd driverId p = Some B \<or> storeOneToOne ?S rnd)"
    then have fo: "firstOtherHolder ?S rnd driverId p = Some B" by (rule holder)
    show "storedEntry (sprintPredictions (app_predictionManager
            (updateSprintPrediction app driverId rnd position))) rnd driverId
          = Some (JNumber (Finite p))
      \<and> storedEntry (sprintPredictions (app_predictionManager
            (updateSprintPrediction app driverId rnd position))) rnd B
          = Some (case storedEntry ?S rnd driverId of None \<Rightarrow> JUndefined | Some old \<Rightarrow> old)
      \<and> (\<forall>d. d \<noteq> driverId \<and> d \<noteq> B \<longrightarrow>
            storedEntry (sprintPredictions (app_predictionManager
                (updateSprintPrediction app driverId rnd position))) rnd d
              = storedEntry ?S rnd d)"
      using fo assms pos by (simp add: updateSprintPrediction_entries)
  qed
qed

text \<open>
  On the sample predictions of round 7, \<^verbatim>\<open>hamilton\<close> at 1 and \<^verbatim>\<open>verstappen\<close> at 2:
  setting \<^verbatim>\<open>hamilton\<close> to 2 leaves \<^verbatim>\<open>hamilton\<close> at 2 and \<^verbatim>\<open>verstappen\<close> at 1,
  and \<^verbatim>\<open>norris\<close> as before.
\<close>

theorem updatePrediction_swaps_with_holder_witness:
  "parseInt (JString ''2'') = Finite 2
   \<and> storedEntry (userPredictions (app_predictionManager example_swap_app)) ''7'' ''hamilton''
       = Some (JNumber (Finite 1))
   \<and> storedEntry (userPredictions (app_predictionManager example_swap_app)) ''7'' ''verstappen''
       = Some (JNumber (Finite 2))
   \<and> storedEntry (userPredictions (app_predictionManager
         (updatePrediction example_swap_app ''hamilton'' ''7'' (JString ''2'')))) ''7'' ''hamilton''
       = Some (JNumber (Finite 2))
   \<and> storedEntry (userPredictions (app_predictionManager
         (updatePrediction example_swap_app ''hamilton'' ''7'' (JString ''2'')))) ''7'' ''verstappen''
       = Some (JNumber (Finite 1))
   \<and> storedEntry (userPredictions (app_predictionManager
         (updatePrediction example_swap_app ''hamilton'' ''7'' (JString ''2'')))) ''7'' ''norris''
       = Some JNull
   \<and> storedEntry (sprintPredictions (app_predictionManager
         (updateSprintPrediction example_swap_app ''hamilton'' ''7'' (JString ''2'')))) ''7''
         ''verstappen''
       = Some (JNumber (Finite 1))"
proof -
  let ?U = "userPredictions (app_predictionManager example_swap_app)"
  let ?S = "sprintPredictions (app_predictionManager example_swap_app)"
  have two: "parseInt (JString ''2'') = Finite 2"
    using parseInt_decimal_string [of 2] by (simp add: toDecimal.simps digitChar_def)
  have pos: "(0::int) < 2" by simp
  have ne: "''verstappen'' \<noteq> ''hamilton''" by simp
  have uh: "storedEntry ?U ''7'' ''hamilton'' = Some (JNumber (Finite 1))"
    by (simp add: storedEntry_def example_swap_app_def)
  have uv: "storedEntry ?U ''7'' ''verstappen'' = Some (JNumber (Finite 2))"
    by (simp add: storedEntry_def example_swap_app_def)
  have un: "storedEntry ?U ''7'' ''norris'' = Some JNull"
    by (simp add: storedEntry_def example_swap_app_def)
  have sh: "storedEntry ?S ''7'' ''hamilton'' = Some (JNumber (Finite 1))"
    by (simp add: storedEntry_def example_swap_app_def)
  have sv: "storedEntry ?S ''7'' ''verstappen'' = Some (JNumber (Finite 2))"
    by (simp add: storedEntry_def example_swap_app_def)
  have fu: "firstOtherHolder ?U ''7'' ''hamilton'' 2 = Some ''verstappen''"
    by (simp add: firstOtherHolder_def example_swap_app_def parseInt_Finite)
  have fs: "firstOtherHolder ?S ''7'' ''hamilton'' 2 = Some ''verstappen''"
    by (simp add: firstOtherHolder_def example_swap_app_def parseInt_Finite)
  note th = updatePrediction_swaps_with_holder
    [OF two pos ne, of example_swap_app "''7''" "JNumber (Finite 2)"]
  from th uv fu have race:
    "storedEntry (userPredictions (app_predictionManager
         (updatePrediction example_swap_app ''hamilton'' ''7'' (JString ''2'')))) ''7'' ''hamilton''
       = Some (JNumber (Finite 2))
     \<and> storedEntry (userPredictions (app_predictionManager
         (updatePrediction example_swap_app ''hamilton'' ''7'' (JString ''2'')))) ''7'' ''verstappen''
       = Some (JNumber (Finite 1))
     \<and> storedEntry (userPredictions (app_predictionManager
         (updatePrediction example_swap_app ''hamilton'' ''7'' (JString ''2'')))) ''7'' ''norris''
       = Some JNull"
    by (simp add: parseInt_Finite uh un)
  from th sv fs have sprint:
    "storedEntry (sprintPredictions (app_predictionManager
         (updateSprintPrediction example_swap_app ''hamilton'' ''7'' (JString ''2'')))) ''7''
         ''verstappen''
       = Some (JNumber (Finite 1))"
    by (simp add: parseInt_Finite sh)
  show ?thesis using two uh uv race sprint by blast
qed

text \<open>
  C6. The one-to-one invariant (in the predictions of one round and event kind no two
  drivers hold the same concrete position) is preserved by every write through
  \<^verbatim>\<open>updatePrediction\<close> and \<^verbatim>\<open>updateSprintPrediction\<close>, for every written value:
  it holds afterwards in every round in which it held before.
\<close>

theorem updatePrediction_preserves_oneToOne:
  "(storeOneToOne (userPredictions (app_predictionManager app)) r \<longrightarrow>
      storeOneToOne (userPredictions (app_predictionManager
        (updatePrediction app driverId rnd position))) r)
   \<and> (storeOneToOne (sprintPredictions (app_predictionManager app)) r \<longrightarrow>
      storeOneToOne (sprintPredictions (app_predictionManager
        (updateSprintPrediction app driverId rnd position))) r)"
proof (rule conjI; rule impI)
  assume inv: "storeOneToOne (userPredictions (app_predictionManager app)) r"
  show "storeOneToOne (userPredictions (app_predictionManager
        (updatePrediction app driverId rnd position))) r"
  proof (cases "r = rnd")
    case True
    with inv have "oneToOne (case userPredictions (app_predictionManager app) rnd of
        None \<Rightarrow> [] | Some obj \<Rightarrow> obj)"
      using storeOneToOne_object by blast
    then have "oneToOne (writtenObject
        (case userPredictions (app_predictionManager app) rnd of None \<Rightarrow> [] | Some obj \<Rightarrow> obj)
        driverId (toPos position))"
      using toPos_shape by (rule oneToOne_writtenObject)
    with True show ?thesis
      by (simp add: updatePrediction_effect storeOneToOne_upd)
  next
    case False
    with inv show ?thesis
      by (simp add: updatePrediction_effect storeOneToOne_upd)
  qed
next
  assume inv: "storeOneToOne (sprintPredictions (app_predictionManager app)) r"
  show "storeOneToOne (sprintPredictions (app_predictionManager
        (updateSprintPrediction app driverId rnd position))) r"
  proof (cases "r = rnd")
    case True
    with inv have "oneToOne (case sprintPredictions (app_predictionManager app) rnd of
        None \<Rightarrow> [] | Some obj \<Rightarrow> obj)"
      using storeOneToOne_object by blast
    then have "oneToOne (writtenObject
        (case sprintPredictions (app_predictionManager app) rnd of None \<Rightarrow> [] | Some obj \<Rightarrow> obj)
        driverId (toPos position))"
      using toPos_shape by (rule oneToOne_writtenObject)
    with True show ?thesis
      by (simp add: updateSprintPrediction_effect storeOneToOne_upd)
  next
    case False
    with inv show ?thesis
      by (simp add: updateSprintPrediction_effect storeOneToOne_upd)
  qed
qed

text \<open>
  On the sample predictions of round 7 the invariant holds, and it holds again after
  \<^verbatim>\<open>hamilton\<close> takes the position \<^verbatim>\<open>verstappen\<close> held.
\<close>

theorem updatePrediction_preserves_oneToOne_witness:
  "storeOneToOne (userPredictions (app_predictionManager example_swap_app)) ''7''
   \<and> storeOneToOne (userPredictions (app_predictionManager
        (updatePrediction example_swap_app ''hamilton'' ''7'' (JString ''2'')))) ''7''
   \<and> storeOneToOne (sprintPredictions (app_predictionManager example_swap_app)) ''7''
   \<and> storeOneToOne (sprintPredictions (app_predictionManager
        (updateSprintPrediction example_swap_app ''norris'' ''7'' (JNumber (Finite 1))))) ''7''"
proof -
  have u: "storeOneToOne (userPredictions (app_predictionManager example_swap_app)) ''7''"
    by (simp add: storeOneToOne_def oneToOne_def example_swap_app_def concretePosition_written
        concretePosition_JNull)
  have s: "storeOneToOne (sprintPredictions (app_predictionManager example_swap_app)) ''7''"
    by (simp add: storeOneToOne_def oneToOne_def example_swap_app_def concretePosition_written
        concretePosition_JNull)
  have u': "storeOneToOne (userPredictions (app_predictionManager
        (updatePrediction example_swap_app ''hamilton'' ''7'' (JString ''2'')))) ''7''"
    using updatePrediction_preserves_oneToOne
      [of example_swap_app "''7''" "''hamilton''" "''7''" "JString ''2''"] u
    by blast
  have s': "storeOneToOne (sprintPredictions (app_predictionManager
        (updateSprintPrediction example_swap_app ''norris'' ''7'' (JNumber (Finite 1))))) ''7''"
    using updatePrediction_preserves_oneToOne
      [of example_swap_app "''7''" "''norris''" "''7''" "JNumber (Finite 1)"] s
    by blast
  show ?thesis using u u' s s' by blast
qed

text \<open>
  C10. A prediction write touches nothing but the predictions of the targeted round and
  event kind. After \<^verbatim>\<open>updatePrediction\<close> the application differs from before only
  in its prediction manager; the column visibility and the sprint predictions are as
  before, every other round of the race predictions is as before, and within the
  targeted round every entry is as before except the writer's and, when a swap occurs,
  the swapped holder's. The same holds for \<^verbatim>\<open>updateSprintPrediction\<close> with the two
  kinds exchanged, and the two setters of the prediction manager change the written
  driver's entry only.
\<close>

theorem prediction_write_frame:
  "(let app' = updatePrediction app driverId rnd position;
        U = userPredictions (app_predictionManager app);
        U' = userPredictions (app_predictionManager app');
        swapped = (case parseInt position of
                     NaN \<Rightarrow> None
                   | Finite p \<Rightarrow> (if p > 0 then firstOtherHolder U rnd driverId p else None))
    in app' = app\<lparr>app_predictionManager := app_predictionManager app'\<rparr>
     \<and> app_tableRenderer app' = app_tableRenderer app
     \<and> sprintPredictions (app_predictionManager app')
         = sprintPredictions (app_predictionManager app)
     \<and> (\<forall>r. r \<noteq> rnd \<longrightarrow> U' r = U r)
     \<and> (\<forall>d. d \<noteq> driverId \<and> swapped \<noteq> Some d \<longrightarrow> storedEntry U' rnd d = storedEntry U rnd d))
   \<and> (let app' = updateSprintPrediction app driverId rnd position;
        S = sprintPredictions (app_predictionManager app);
        S' = sprintPredictions (app_predictionManager app');
        swapped = (case parseInt position of
                     NaN \<Rightarrow> None
                   | Finite p \<Rightarrow> (if p > 0 then firstOtherHolder S rnd driverId p else None))
    in app' = app\<lparr>app_predictionManager := app_predictionManager app'\<rparr>
     \<and> app_tableRenderer app' = app_tableRenderer app
     \<and> userPredictions (app_predictionManager app')
         = userPredictions (app_predictionManager app)
     \<and> (\<forall>r. r \<noteq> rnd \<longrightarrow> S' r = S r)
     \<and> (\<forall>d. d \<noteq> driverId \<and> swapped \<noteq> Some d \<longrightarrow> storedEntry S' rnd d = storedEntry S rnd d))
   \<and> (let pm' = PredictionManager_updatePrediction pm driverId rnd pos
      in sprintPredictions pm' = sprintPredictions pm
       \<and> (\<forall>r. r \<noteq> rnd \<longrightarrow> userPredictions pm' r = userPredictions pm r)
       \<and> (\<forall>d. d \<noteq> driverId \<longrightarrow>
             storedEntry (userPredictions pm') rnd d = storedEntry (userPredictions pm) rnd d))
   \<and> (let pm' = PredictionManager_updateSprintPrediction pm driverId rnd pos
      in userPredictions pm' = userPredictions pm
       \<and> (\<forall>r. r \<noteq> rnd \<longrightarrow> sprintPredictions pm' r = sprintPredictions pm r)
       \<and> (\<forall>d. d \<noteq> driverId \<longrightarrow>
             storedEntry (sprintPredictions pm') rnd d
               = storedEntry (sprintPredictions pm) rnd d))"
proof (intro conjI)
  show "let app' = updatePrediction app driverId rnd position;
        U = userPredictions (app_predictionManager app);
        U' = userPredictions (app_predictionManager app');
        swapped = (case parseInt position of
                     NaN \<Rightarrow> None
                   | Finite p \<Rightarrow> (if p > 0 then firstOtherHolder U rnd driverId p else None))
    in app' = app\<lparr>app_predictionManager := app_predictionManager app'\<rparr>
     \<and> app_tableRenderer app' = app_tableRenderer app
     \<and> sprintPredictions (app_predictionManager app')
         = sprintPredictions (app_predictionManager app)
     \<and> (\<forall>r. r \<noteq> rnd \<longrightarrow> U' r = U r)
     \<and> (\<forall>d. d \<noteq> driverId \<and> swapped \<noteq> Some d \<longrightarrow> storedEntry U' rnd d = storedEntry U rnd d)"
    unfolding Let_def
  proof (intro conjI allI impI)
    fix d
    assume "d \<noteq> driverId \<and>
      (case parseInt position of
         NaN \<Rightarrow> None
       | Finite p \<Rightarrow>
           (if p > 0
            then firstOtherHolder (userPredictions (app_predictionManager app)) rnd driverId p
            else None)) \<noteq> Some d"
    then show "storedEntry (userPredictions (app_predictionManager
          (updatePrediction app driverId rnd position))) rnd d =
        storedEntry (userPredictions (app_predictionManager app)) rnd d"
      by (simp add: updatePrediction_entries)
  qed (simp_all add: updatePrediction_effect)
  show "let app' = updateSprintPrediction app driverId rnd position;
        S = sprintPredictions (app_predictionManager app);
        S' = sprintPredictions (app_predictionManager app');
        swapped = (case parseInt position of
                     NaN \<Rightarrow> None
                   | Finite p \<Rightarrow> (if p > 0 then firstOtherHolder S rnd driverId p else None))
    in app' = app\<lparr>app_predictionManager := app_predictionManager app'\<rparr>
     \<and> app_tableRenderer app' = app_tableRenderer app
     \<and> userPredictions (app_predictionManager app')
         = userPredictions (app_predictionManager app)
     \<and> (\<forall>r. r \<noteq> rnd \<longrightarrow> S' r = S r)
     \<and> (\<forall>d. d \<noteq> driverId \<and> swapped \<noteq> Some d \<longrightarrow> storedEntry S' rnd d = storedEntry S rnd d)"
    unfolding Let_def
  proof (intro conjI allI impI)
    fix d
    assume "d \<noteq> driverId \<and>
      (case parseInt position of
         NaN \<Rightarrow> None
       | Finite p \<Rightarrow>
           (if p > 0
            then firstOtherHolder (sprintPredictions (app_predictionManager app)) rnd driverId p
            else None)) \<noteq> Some d"
    then show "storedEntry (sprintPredictions (app_predictionManager
          (updateSprintPrediction app driverId rnd position))) rnd d =
        storedEntry (sprintPredictions (app_predictionManager app)) rnd d"
      by (simp add: updateSprintPrediction_entries)
  qed (simp_all add: updateSprintPrediction_effect)
  show "let pm' = PredictionManager_updatePrediction pm driverId rnd pos
      in sprintPredictions pm' = sprintPredictions pm
       \<and> (\<forall>r. r \<noteq> rnd \<longrightarrow> userPredictions pm' r = userPredictions pm r)
       \<and> (\<forall>d. d \<noteq> driverId \<longrightarrow>
             storedEntry (userPredictions pm') rnd d = storedEntry (userPredictions pm) rnd d)"
    unfolding Let_def
    by (simp add: PredictionManager_updatePrediction_entries)
      (simp add: PredictionManager_updatePrediction_def)
  show "let pm' = PredictionManager_updateSprintPrediction pm driverId rnd pos
      in userPredictions pm' = userPredictions pm
       \<and> (\<forall>r. r \<noteq> rnd \<longrightarrow> sprintPredictions pm' r = sprintPredictions pm r)
       \<and> (\<forall>d. d \<noteq> driverId \<longrightarrow>
             storedEntry (sprintPredictions pm') rnd d
               = storedEntry (sprintPredictions pm) rnd d)"
    unfolding Let_def
    by (simp add: PredictionManager_updateSprintPrediction_entries)
      (simp add: PredictionManager_updateSprintPrediction_def)
qed

text \<open>
  On the sample predictions, after \<^verbatim>\<open>hamilton\<close> is set to 2 in round 7: round 8, the
  sprint predictions, the collapsed set and the entry of \<^verbatim>\<open>norris\<close> are as before.
\<close>

theorem prediction_write_frame_witness:
  "''8'' \<noteq> ''7''
   \<and> userPredictions (app_predictionManager
        (updatePrediction example_swap_app ''hamilton'' ''7'' (JString ''2''))) ''8''
       = Some [(''hamilton'', JNumber (Finite 5))]
   \<and> sprintPredictions (app_predictionManager
        (updatePrediction example_swap_app ''hamilton'' ''7'' (JString ''2''))) ''7''
       = Some [(''hamilton'', JNumber (Finite 1)), (''verstappen'', JNumber (Finite 2)),
               (''norris'', JNull)]
   \<and> app_tableRenderer (updatePrediction example_swap_app ''hamilton'' ''7'' (JString ''2''))
       = \<lparr>collapsedColumns = {}\<rparr>
   \<and> storedEntry (userPredictions (app_predictionManager
        (updatePrediction example_swap_app ''hamilton'' ''7'' (JString ''2'')))) ''7'' ''norris''
       = Some JNull"
proof -
  let ?app' = "updatePrediction example_swap_app ''hamilton'' ''7'' (JString ''2'')"
  let ?U = "userPredictions (app_predictionManager example_swap_app)"
  have two: "parseInt (JString ''2'') = Finite 2"
    using parseInt_decimal_string [of 2] by (simp add: toDecimal.simps digitChar_def)
  have fu: "firstOtherHolder ?U ''7'' ''hamilton'' 2 = Some ''verstappen''"
    by (simp add: firstOtherHolder_def example_swap_app_def parseInt_Finite)
  note th = prediction_write_frame
    [of example_swap_app "''hamilton''" "''7''" "JString ''2''", unfolded Let_def two]
  note race = th [THEN conjunct1]
  have tr: "app_tableRenderer ?app' = app_tableRenderer example_swap_app"
    by (rule race [THEN conjunct2, THEN conjunct1])
  have sprint: "sprintPredictions (app_predictionManager ?app')
      = sprintPredictions (app_predictionManager example_swap_app)"
    by (rule race [THEN conjunct2, THEN conjunct2, THEN conjunct1])
  have rounds: "\<forall>r. r \<noteq> ''7'' \<longrightarrow> userPredictions (app_predictionManager ?app') r = ?U r"
    by (rule race [THEN conjunct2, THEN conjunct2, THEN conjunct2, THEN conjunct1])
  have entries: "\<forall>d. d \<noteq> ''hamilton'' \<and> Some ''verstappen'' \<noteq> Some d \<longrightarrow>
      storedEntry (userPredictions (app_predictionManager ?app')) ''7'' d = storedEntry ?U ''7'' d"
    using race [THEN conjunct2, THEN conjunct2, THEN conjunct2, THEN conjunct2] fu
    by simp
  have r8: "userPredictions (app_predictionManager ?app') ''8''
      = Some [(''hamilton'', JNumber (Finite 5))]"
    using rounds by (simp add: example_swap_app_def)
  have s7: "sprintPredictions (app_predictionManager ?app') ''7''
      = Some [(''hamilton'', JNumber (Finite 1)), (''verstappen'', JNumber (Finite 2)),
              (''norris'', JNull)]"
    using sprint by (simp add: example_swap_app_def)
  have t: "app_tableRenderer ?app' = \<lparr>collapsedColumns = {}\<rparr>"
    using tr by (simp add: example_swap_app_def example_app_def)
  have n: "storedEntry (userPredictions (app_predictionManager ?app')) ''7'' ''norris''
      = Some JNull"
    using entries by (simp add: storedEntry_def example_swap_app_def)
  have ne: "''8'' \<noteq> ''7''" by simp
  show ?thesis using ne r8 s7 t n by (intro conjI)
qed

section \<open>An entry left without a prediction by the swap\<close>

text \<open>
  C7. The claim is that a stored entry is used and that an entry standing for no
  prediction yields 0. The chain above shows this for a stored position and for a stored
  \<^verbatim>\<open>null\<close>. The swap of \<^verbatim>\<open>updatePrediction\<close> can leave a third kind of entry: from
  an empty store, \<^verbatim>\<open>verstappen\<close> is set to 3 in round 7 and then \<^verbatim>\<open>hamilton\<close> is set
  to 3; \<^verbatim>\<open>verstappen\<close> receives the previous value of \<^verbatim>\<open>hamilton\<close>, who had no entry,
  so \<^verbatim>\<open>undefined\<close> is stored as an entry of its own. \<^verbatim>\<open>getPredictedPosition\<close> tests
  for \<^verbatim>\<open>null\<close> only, and for this entry it returns \<^verbatim>\<open>parseInt(undefined)\<close>, which is
  \<^verbatim>\<open>NaN\<close>, not 0.
\<close>

theorem getPredictedPosition_undefined_entry_gives_NaN:
  "userPredictions (app_predictionManager example_app) ''7'' = None
   \<and> userPredictions (app_predictionManager
        (updatePrediction (updatePrediction example_app ''verstappen'' ''7'' (JString ''3''))
           ''hamilton'' ''7'' (JString ''3''))) ''7''
       = Some [(''verstappen'', JUndefined), (''hamilton'', JNumber (Finite 3))]
   \<and> getPredictedPosition
        (app_predictionManager
          (updatePrediction (updatePrediction example_app ''verstappen'' ''7'' (JString ''3''))
             ''hamilton'' ''7'' (JString ''3'')))
        ''verstappen'' ''7'' False Map.empty Map.empty example_drivers
       = NaN
   \<and> getPredictedPosition
        (app_predictionManager
          (updatePrediction (updatePrediction example_app ''verstappen'' ''7'' (JString ''3''))
             ''hamilton'' ''7'' (JString ''3'')))
        ''hamilton'' ''7'' False Map.empty Map.empty example_drivers
       = Finite 3"
proof -
  have three: "parseInt (JString ''3'') = Finite 3"
    using parseInt_decimal_string [of 3] by (simp add: toDecimal.simps digitChar_def)
  have pos: "toPos (JString ''3'') = JNumber (Finite 3)"
    by (rule toPos_positive [OF three]) simp
  have first: "userPredictions (app_predictionManager
        (updatePrediction example_app ''verstappen'' ''7'' (JString ''3''))) ''7''
      = Some [(''verstappen'', JNumber (Finite 3))]"
    by (simp add: updatePrediction_effect pos writtenObject_def example_app_def)
  have second: "userPredictions (app_predictionManager
        (updatePrediction (updatePrediction example_app ''verstappen'' ''7'' (JString ''3''))
           ''hamilton'' ''7'' (JString ''3''))) ''7''
      = Some [(''verstappen'', JUndefined), (''hamilton'', JNumber (Finite 3))]"
    by (simp add: updatePrediction_effect [of _ "''hamilton''"] pos first writtenObject_def
        parseInt_Finite getProperty_def)
  have start: "userPredictions (app_predictionManager example_app) ''7'' = None"
    by (simp add: example_app_def)
  show ?thesis
    by (simp add: start second getPredictedPosition_def parseInt_JUndefined parseInt_Finite)
qed

end
